theory Spec2Isabelle
  imports Main "HOL-Library.Word"
begin

unbundle bit_operations_syntax

section \<open>Z80Asm: a shallow embedding of the assembler core\<close>

text \<open>
  The development follows \<^verbatim>\<open>src/Z80Asm.py\<close>. Python integers are unbounded and are
  modelled as \<^typ>\<open>int\<close>; \<^verbatim>\<open>>>\<close>, \<^verbatim>\<open>&\<close>, \<^verbatim>\<open>|\<close>, \<^verbatim>\<open>^\<close> on them are
  \<^const>\<open>drop_bit\<close>, \<open>AND\<close>, \<open>OR\<close>, \<open>XOR\<close> on \<^typ>\<open>int\<close> (two's complement, as in
  Python); \<^verbatim>\<open>//\<close> and \<^verbatim>\<open>%\<close> are \<open>div\<close> and \<open>mod\<close>, which round towards minus
  infinity in both languages. Source text is read with encoding latin-1, so every
  character is one byte and \<^typ>\<open>string\<close> represents it exactly.
  An uncaught Python exception ends the program; it is a value of \<open>py_exn\<close>
  (\<^verbatim>\<open>sys.exit\<close> raises \<^verbatim>\<open>SystemExit\<close>).
\<close>

datatype py_exn =
    IndexError
  | KeyError
  | ValueError
  | ZeroDivisionError
  | UnboundLocalError
  | AttributeError
  | TypeError
  | SystemExit
  | NonTermination

subsection \<open>Number formatting\<close>

text \<open>\<^verbatim>\<open>'{:0wX}'.format (v)\<close>: upper-case hexadecimal, zero-padded to width \<open>w\<close>,
  the sign counted in the width.\<close>

definition hexdigit :: "nat \<Rightarrow> char" where
  "hexdigit d = ''0123456789ABCDEF'' ! d"

fun hex_digits :: "nat \<Rightarrow> string" where
  "hex_digits n =
     (if n < 16 then [hexdigit n] else hex_digits (n div 16) @ [hexdigit (n mod 16)])"

declare hex_digits.simps [simp del]

definition zfill :: "nat \<Rightarrow> string \<Rightarrow> string" where
  "zfill w s = replicate (w - length s) (CHR ''0'') @ s"

definition fmt_0X :: "nat \<Rightarrow> int \<Rightarrow> string" where
  "fmt_0X w v =
     (if v < 0 then CHR ''-'' # zfill (w - 1) (hex_digits (nat (- v)))
      else zfill w (hex_digits (nat v)))"

subsection \<open>Intel-HEX sink (class HexOut)\<close>

text \<open>The open file is the text written to it so far; \<open>hex_removed\<close> records
  \<^verbatim>\<open>os.remove\<close> of the file. Data bytes come from a bytearray and lie in 0..255.\<close>

record HexOut =
  hex_sFile :: string
  hex_f :: string
  hex_removed :: bool
  hex_addr :: "int option"
  hex_data :: "int list"

definition HexOut_init :: "string \<Rightarrow> HexOut" where
  "HexOut_init sFile =
     \<lparr>hex_sFile = sFile, hex_f = [], hex_removed = False, hex_addr = None, hex_data = []\<rparr>"

text \<open>The body of the \<^verbatim>\<open>for by in self.data\<close> loop of \<^verbatim>\<open>Write\<close>, on the pair
  \<^verbatim>\<open>(cs, sHex)\<close>.\<close>

fun Write_bytes :: "int list \<Rightarrow> int \<times> string \<Rightarrow> int \<times> string" where
  "Write_bytes [] acc = acc"
| "Write_bytes (by # rest) (cs, sHex) = Write_bytes rest (cs + by, sHex @ fmt_0X 2 by)"

text \<open>The value of \<^verbatim>\<open>cs\<close> that \<^verbatim>\<open>Write\<close> formats into the record, and the
  whole record text.\<close>

definition Write_cs :: "int \<Rightarrow> int list \<Rightarrow> int" where
  "Write_cs a d =
     (let n = int (length d);
          cs = n + drop_bit 8 a + (a AND 0xFF);
          (cs, sHex) = Write_bytes d (cs, []) in
      0x100 - (cs AND 0xFF))"

definition Write_record :: "int \<Rightarrow> int list \<Rightarrow> string" where
  "Write_record a d =
     (let n = int (length d);
          cs = n + drop_bit 8 a + (a AND 0xFF);
          sHex = '':'' @ fmt_0X 2 n @ fmt_0X 4 a @ ''00'';
          (cs, sHex) = Write_bytes d (cs, sHex);
          cs = 0x100 - (cs AND 0xFF);
          sHex = sHex @ fmt_0X 2 cs @ [CHR 0x0A] in
      sHex)"

definition HexOut_Write :: "HexOut \<Rightarrow> HexOut" where
  "HexOut_Write h =
     (case hex_addr h of
        None \<Rightarrow> h
      | Some a \<Rightarrow>
          if hex_data h = [] then h
          else h\<lparr>hex_f := hex_f h @ Write_record a (hex_data h),
                 hex_addr := Some (a + int (length (hex_data h))),
                 hex_data := []\<rparr>)"

definition HexOut_SetAddr :: "HexOut \<Rightarrow> int \<Rightarrow> bool \<Rightarrow> HexOut" where
  "HexOut_SetAddr h a bInit =
     (case hex_addr h of
        None \<Rightarrow> if bInit then h\<lparr>hex_addr := Some a\<rparr> else h
      | Some cur \<Rightarrow>
          (if cur + int (length (hex_data h)) = a then h else HexOut_Write h)
            \<lparr>hex_addr := Some a\<rparr>)"

fun HexOut_Data :: "HexOut \<Rightarrow> int list \<Rightarrow> HexOut" where
  "HexOut_Data h [] = h"
| "HexOut_Data h (by # ba) =
     (case hex_addr h of
        None \<Rightarrow> h
      | Some a \<Rightarrow>
          (let h1 = h\<lparr>hex_data := hex_data h @ [by]\<rparr>;
               h2 = (if 16 \<le> length (hex_data h1) then HexOut_Write h1 else h1) in
           HexOut_Data h2 ba))"

definition HexOut_Close :: "HexOut \<Rightarrow> int \<Rightarrow> bool \<Rightarrow> HexOut" where
  "HexOut_Close h a bKill =
     (let h1 = HexOut_Write h;
          cs = 0x100 - ((drop_bit 8 a + (a AND 0xFF) + 1) AND 0xFF);
          sHex = '':00'' @ fmt_0X 4 a @ ''01'' @ fmt_0X 2 cs @ [CHR 0x0A];
          h2 = h1\<lparr>hex_f := hex_f h1 @ sHex\<rparr> in
      if bKill then h2\<lparr>hex_removed := True\<rparr> else h2)"

subsection \<open>Raw binary sink (class BinOut)\<close>

text \<open>The file is a byte array with a write position (\<^verbatim>\<open>seek\<close>); a write beyond
  the end extends the file, zero-filling any gap, as the operating system does.\<close>

record BinOut =
  bin_sFile :: string
  bin_f :: "int list"
  bin_fpos :: nat
  bin_removed :: bool
  bin_base :: "int option"
  bin_data :: "int list"
  bin_fill :: int
  bin_addr :: int
  bin_maxaddr :: int

definition BinOut_init :: "string \<Rightarrow> int \<Rightarrow> BinOut" where
  "BinOut_init sFile byFill =
     \<lparr>bin_sFile = sFile, bin_f = [], bin_fpos = 0, bin_removed = False, bin_base = None,
      bin_data = [], bin_fill = byFill, bin_addr = 0, bin_maxaddr = 0\<rparr>"

definition file_write :: "BinOut \<Rightarrow> int list \<Rightarrow> BinOut" where
  "file_write b bs =
     (let old = bin_f b; p = bin_fpos b;
          padded = old @ replicate (p - length old) 0 in
      b\<lparr>bin_f := take p padded @ bs @ drop (p + length bs) padded,
        bin_fpos := p + length bs\<rparr>)"

definition BinOut_SetFill :: "BinOut \<Rightarrow> int \<Rightarrow> BinOut" where
  "BinOut_SetFill b byFill = b\<lparr>bin_fill := byFill\<rparr>"

definition BinOut_Write :: "BinOut \<Rightarrow> BinOut" where
  "BinOut_Write b =
     (let b1 = (if bin_base b = None then b
                else if bin_data b = [] then b
                else file_write b (bin_data b)) in
      b1\<lparr>bin_data := []\<rparr>)"

text \<open>\<^verbatim>\<open>f.seek\<close> raises \<^verbatim>\<open>ValueError\<close> on a negative offset.\<close>

definition BinOut_SetAddr :: "BinOut \<Rightarrow> int \<Rightarrow> bool \<Rightarrow> py_exn + BinOut" where
  "BinOut_SetAddr b a bInit =
     (case bin_base b of
        None \<Rightarrow>
          Inr (if bInit then b\<lparr>bin_base := Some a, bin_addr := a, bin_maxaddr := a\<rparr> else b)
      | Some bs \<Rightarrow>
          if bin_maxaddr b < a then
            (let b1 = BinOut_Write b in
             if bin_addr b1 < bin_maxaddr b1 \<and> bin_maxaddr b1 - bs < 0 then Inl ValueError
             else
               (let b2 = (if bin_addr b1 < bin_maxaddr b1
                          then b1\<lparr>bin_fpos := nat (bin_maxaddr b1 - bs)\<rparr> else b1);
                    b3 = file_write b2 (replicate (nat (a - bin_maxaddr b2)) (bin_fill b2)) in
                Inr (b3\<lparr>bin_addr := a, bin_maxaddr := a\<rparr>)))
          else if a = bin_addr b then Inr b
          else
            (let b1 = BinOut_Write b in
             if a - bs < 0 then Inl ValueError
             else Inr (b1\<lparr>bin_fpos := nat (a - bs), bin_addr := a\<rparr>)))"

fun BinOut_Data_bytes :: "BinOut \<Rightarrow> int list \<Rightarrow> BinOut" where
  "BinOut_Data_bytes b [] = b"
| "BinOut_Data_bytes b (by # ba) =
     (let b1 = b\<lparr>bin_data := bin_data b @ [by]\<rparr>;
          b2 = (if 256 \<le> length (bin_data b1) then BinOut_Write b1 else b1) in
      BinOut_Data_bytes b2 ba)"

definition BinOut_Data :: "BinOut \<Rightarrow> int list \<Rightarrow> BinOut" where
  "BinOut_Data b ba =
     (if bin_base b = None then b
      else
        (let b1 = BinOut_Data_bytes b ba;
             b2 = b1\<lparr>bin_addr := bin_addr b1 + int (length ba)\<rparr> in
         if bin_maxaddr b2 < bin_addr b2 then b2\<lparr>bin_maxaddr := bin_addr b2\<rparr> else b2))"

definition BinOut_Close :: "BinOut \<Rightarrow> bool \<Rightarrow> BinOut" where
  "BinOut_Close b bKill =
     (let b1 = BinOut_Write b in
      if bKill then b1\<lparr>bin_removed := True\<rparr> else b1)"

subsection \<open>Labels, terms and the assembler state\<close>

datatype seg = SegA | SegC | SegD

text \<open>class Label. The segment tag of a label that \<^verbatim>\<open>Public\<close> only declared is the
  empty string, here \<open>None\<close>; its value is \<^verbatim>\<open>None\<close> until it is defined.\<close>

record Label =
  lab_name :: string
  lab_seg :: "seg option"
  lab_value :: "int option"
  lab_file :: string
  lab_line :: int

datatype style = MA | M80 | PASMO | ZASM

datatype cpu = CPU_8080 | CPU_Z80 | CPU_Z180

text \<open>The operator tags of a term, each named after its Python string.\<close>

datatype opr =
    UPlus | UMinus | UTilde | L2 | LOW | HIGH
  | Star | Slash | MOD | SHL | SHR | Plus | Minus
  | EQ | NE | LT | LE | GE | GT
  | NOT_w | Amp | AND_w | Bang | OR_w | Caret | XOR_w
  | LParen | RParen | Comma

text \<open>A term of a parsed expression: a literal tagged \<^verbatim>\<open>B\<close>, \<^verbatim>\<open>D\<close>, \<^verbatim>\<open>H\<close> or
  \<^verbatim>\<open>Q\<close>, a string, a label name, or an operator.\<close>

datatype expr_term =
    TB int | TD int | TH int | TQ int
  | TStr string
  | TL string
  | TOp opr

text \<open>A source line after the lexical front end of \<^verbatim>\<open>Parse\<close> (comment stripped,
  label split off, mnemonic upper-cased): the label with its public flag, the mnemonic,
  and the comma-separated arguments, each with its text and the term list that
  \<^verbatim>\<open>ExprParse\<close> yields for it. \<open>Blank\<close> is an empty or whole-line comment line,
  \<open>DotLabel\<close> the MA form \<^verbatim>\<open>.name\<close>.\<close>

datatype src_line =
    Blank
  | DotLabel string
  | Stmt "(string \<times> bool) option" string "(string \<times> expr_term list) list"

text \<open>An open source file: its lines and the read position (a line index stands for
  the byte offset of \<^verbatim>\<open>tell\<close> and \<^verbatim>\<open>seek\<close>); \<open>fh_id\<close> is the identity of
  the file object.\<close>

record FileHandle =
  fh_id :: nat
  fh_lines :: "src_line list"
  fh_pos :: nat

text \<open>class Reformat, as far as closing it goes: whether the output file is open and
  whether it has been removed.\<close>

record Reformat =
  ref_open :: bool
  ref_removed :: bool

text \<open>The fields of class Assembler. Stacks keep Python's order: the top of
  \<open>enable\<close>, \<open>files\<close>, \<open>handles\<close> and \<open>macros\<close> is the last element. A
  \<^verbatim>\<open>REPT\<close> record \<^verbatim>\<open>['R', handle, offset, count]\<close> is the triple of the handle's
  identity, the offset and the count. Two fields are not attributes of the class:
  \<open>errors_out\<close> is what \<^verbatim>\<open>AsmPass\<close> prints for each line in error (the message,
  the line number and the file), and \<open>trace\<close> logs the lines handed to
  \<^verbatim>\<open>Parse\<close>. The last four fields are read by the parser on source text only:
  \<open>sArgs\<close> is the argument text still to be consumed, \<open>chComment\<close> the delimiter
  of an open \<^verbatim>\<open>.COMMENT\<close> or \<^verbatim>\<open>.PRINTX\<close> block.\<close>

record Assembler =
  style :: style
  cpu_type :: cpu
  bStrict :: bool
  bLabCase :: bool
  eval_mode :: nat
  phase :: int
  nErr :: int
  sErr :: "string option"
  mc :: "int list"
  nSpace :: int
  ltype :: char
  eq_val :: int
  enable :: "bool list"
  lseg :: seg
  pseg :: seg
  base :: "seg \<Rightarrow> int"
  pc :: "seg \<Rightarrow> int"
  lc :: "seg \<Rightarrow> int"
  offset :: int
  bUpdate :: bool
  lOrgUpd :: "string list"
  publics :: "string \<rightharpoonup> Label"
  labels :: "string \<rightharpoonup> Label"
  locals :: "(string \<rightharpoonup> Label) list"
  files :: "(string \<times> int) list"
  handles :: "FileHandle list"
  macros :: "(nat \<times> nat \<times> int) list"
  begin_addr :: int
  binout :: "BinOut option"
  hexout :: "HexOut option"
  reformat :: Reformat
  errors_out :: "(string \<times> int \<times> string) list"
  trace :: "src_line list"
  sArgs :: string
  chComment :: "char option"
  bPrintX :: bool
  build :: "int option"

subsection \<open>Errors\<close>

text \<open>\<^verbatim>\<open>AsmErr\<close> keeps the first message of a line.\<close>

definition AsmErr :: "Assembler \<Rightarrow> string \<Rightarrow> Assembler" where
  "AsmErr s msg = (if sErr s = None then s\<lparr>sErr := Some msg\<rparr> else s)"

text \<open>\<^verbatim>\<open>self.enable[-1]\<close>.\<close>

definition enable_top :: "Assembler \<Rightarrow> py_exn + bool" where
  "enable_top s = (if enable s = [] then Inl IndexError else Inr (last (enable s)))"

text \<open>\<^verbatim>\<open>'{:d}'.format (v)\<close>.\<close>

definition decdigit :: "nat \<Rightarrow> char" where
  "decdigit d = ''0123456789'' ! d"

fun dec_digits :: "nat \<Rightarrow> string" where
  "dec_digits n =
     (if n < 10 then [decdigit n] else dec_digits (n div 10) @ [decdigit (n mod 10)])"

declare dec_digits.simps [simp del]

definition fmt_d :: "int \<Rightarrow> string" where
  "fmt_d v = (if v < 0 then CHR ''-'' # dec_digits (nat (- v)) else dec_digits (nat v))"

text \<open>\<^verbatim>\<open>str.lower\<close> on latin-1 text: the letters A..Z and the accented capitals
  0xC0..0xDE (without the multiplication sign 0xD7) move up by 0x20.\<close>

definition lower_char :: "char \<Rightarrow> char" where
  "lower_char c =
     (let n = (of_char c :: nat) in
      if 0x41 \<le> n \<and> n \<le> 0x5A then char_of (n + 0x20)
      else if n = 0xD7 then c
      else if 0xC0 \<le> n \<and> n \<le> 0xDE then char_of (n + 0x20)
      else c)"

definition lower :: "string \<Rightarrow> string" where
  "lower str = map lower_char str"

text \<open>\<^verbatim>\<open>ord\<close>.\<close>

definition ord :: "char \<Rightarrow> int" where
  "ord c = of_char c"

subsection \<open>Expression evaluator (ExprEval)\<close>

text \<open>The two binding tables \<^verbatim>\<open>evLvl[0]\<close> (normal rules) and \<^verbatim>\<open>evLvl[1]\<close> (the MA
  simple evaluator). \<^verbatim>\<open>self.eval\<close> is only ever 0 or 1.\<close>

fun evLvl_full :: "opr \<Rightarrow> int" where
  "evLvl_full UPlus = 9" | "evLvl_full UMinus = 9" | "evLvl_full UTilde = 9"
| "evLvl_full L2 = 9" | "evLvl_full LOW = 8" | "evLvl_full HIGH = 8"
| "evLvl_full Star = 7" | "evLvl_full Slash = 7" | "evLvl_full MOD = 7"
| "evLvl_full SHL = 7" | "evLvl_full SHR = 7"
| "evLvl_full Plus = 6" | "evLvl_full Minus = 6"
| "evLvl_full EQ = 5" | "evLvl_full NE = 5" | "evLvl_full LT = 5"
| "evLvl_full LE = 5" | "evLvl_full GE = 5" | "evLvl_full GT = 5"
| "evLvl_full NOT_w = 4"
| "evLvl_full Amp = 3" | "evLvl_full AND_w = 3"
| "evLvl_full Bang = 2" | "evLvl_full OR_w = 2" | "evLvl_full Caret = 2"
| "evLvl_full XOR_w = 2"
| "evLvl_full LParen = 1" | "evLvl_full RParen = 1" | "evLvl_full Comma = 0"

fun evLvl_simple :: "opr \<Rightarrow> int" where
  "evLvl_simple UPlus = 3" | "evLvl_simple UMinus = 3" | "evLvl_simple UTilde = 3"
| "evLvl_simple L2 = 3"
| "evLvl_simple LParen = 1" | "evLvl_simple RParen = 1" | "evLvl_simple Comma = 0"
| "evLvl_simple t = 2"

definition evLvl :: "nat \<Rightarrow> opr \<Rightarrow> int" where
  "evLvl e t = (if e = 0 then evLvl_full t else evLvl_simple t)"

fun opr_str :: "opr \<Rightarrow> string" where
  "opr_str UPlus = ''U+''" | "opr_str UMinus = ''U-''" | "opr_str UTilde = ''U~''"
| "opr_str L2 = ''L2''" | "opr_str LOW = ''LOW''" | "opr_str HIGH = ''HIGH''"
| "opr_str Star = ''*''" | "opr_str Slash = ''/''" | "opr_str MOD = ''MOD''"
| "opr_str SHL = ''SHL''" | "opr_str SHR = ''SHR''"
| "opr_str Plus = ''+''" | "opr_str Minus = ''-''"
| "opr_str EQ = ''EQ''" | "opr_str NE = ''NE''" | "opr_str LT = ''LT''"
| "opr_str LE = ''LE''" | "opr_str GE = ''GE''" | "opr_str GT = ''GT''"
| "opr_str NOT_w = ''NOT''"
| "opr_str Amp = ''&''" | "opr_str AND_w = ''AND''"
| "opr_str Bang = ''!''" | "opr_str OR_w = ''OR''" | "opr_str Caret = ''^''"
| "opr_str XOR_w = ''XOR''"
| "opr_str LParen = ''(''" | "opr_str RParen = '')''" | "opr_str Comma = '',''"

definition TriArg :: "bool \<Rightarrow> 'a \<Rightarrow> 'a \<Rightarrow> 'a" where
  "TriArg tf a b = (if tf then a else b)"

text \<open>The value of a string term (lines 1289-1295).\<close>

definition str_value :: "string \<Rightarrow> int" where
  "str_value arg =
     (if length arg = 0 then 0
      else if length arg = 1 then ord (arg ! 0)
      else 256 * ord (arg ! (length arg - 2)) + ord (arg ! (length arg - 1)))"

text \<open>The loop of the \<^verbatim>\<open>L2\<close> operator: \<^verbatim>\<open>while ( w != 0 ): w >>= 1; nBit += 1\<close>.
  It does not end on a negative operand; not returning is \<open>None\<close>.\<close>

partial_function (option) L2_loop :: "int \<Rightarrow> int \<Rightarrow> int option" where
  "L2_loop w nBit = (if w \<noteq> 0 then L2_loop (drop_bit 1 w) (nBit + 1) else Some nBit)"

declare L2_loop.simps [code]

text \<open>One operator popped from \<^verbatim>\<open>lOp\<close>, applied to the value stack. The stacks
  \<^verbatim>\<open>lValue\<close> and \<^verbatim>\<open>lOp\<close> are local to \<^verbatim>\<open>ExprEval\<close>; here their top is the head
  of the list. \<^verbatim>\<open>rValue = lValue.pop ()\<close> and \<^verbatim>\<open>lValue[-1]\<close> raise
  \<^verbatim>\<open>IndexError\<close> on an empty stack.\<close>

datatype op_result =
    Applied "int list"
  | AppliedErr string "int list"
  | BreakParen
  | InvalidOp
  | Raised py_exn

definition binop :: "(int \<Rightarrow> int \<Rightarrow> int) \<Rightarrow> int list \<Rightarrow> op_result" where
  "binop f lValue =
     (case lValue of
        rValue # l # rest \<Rightarrow> Applied (f l rValue # rest)
      | _ \<Rightarrow> Raised IndexError)"

definition unop :: "(int \<Rightarrow> int) \<Rightarrow> int list \<Rightarrow> op_result" where
  "unop f lValue =
     (case lValue of
        v # rest \<Rightarrow> Applied (f v # rest)
      | [] \<Rightarrow> Raised IndexError)"

fun apply_op :: "opr \<Rightarrow> int list \<Rightarrow> op_result" where
  "apply_op Plus lValue = binop (\<lambda>l r. l + r) lValue"
| "apply_op Minus lValue = binop (\<lambda>l r. l - r) lValue"
| "apply_op UPlus lValue = Applied lValue"
| "apply_op UMinus lValue = unop (\<lambda>v. - v) lValue"
| "apply_op UTilde lValue = unop (\<lambda>v. v XOR 0xFFFF) lValue"
| "apply_op NOT_w lValue = unop (\<lambda>v. v XOR 0xFFFF) lValue"
| "apply_op Star lValue = binop (\<lambda>l r. l * r) lValue"
| "apply_op Slash lValue =
     (case lValue of
        rValue # l # rest \<Rightarrow>
          if rValue = 0 then Raised ZeroDivisionError else Applied (l div rValue # rest)
      | _ \<Rightarrow> Raised IndexError)"
| "apply_op MOD lValue =
     (case lValue of
        rValue # l # rest \<Rightarrow>
          if rValue = 0 then Raised ZeroDivisionError else Applied (l mod rValue # rest)
      | _ \<Rightarrow> Raised IndexError)"
| "apply_op HIGH lValue = unop (\<lambda>v. drop_bit 8 v) lValue"
| "apply_op LOW lValue = unop (\<lambda>v. v AND 0xFF) lValue"
| "apply_op SHL lValue =
     (case lValue of
        [] \<Rightarrow> Raised IndexError
      | rValue # lv \<Rightarrow>
          if 0 \<le> rValue then unop (\<lambda>v. push_bit (nat rValue) v AND 0xFFFF) lv
          else AppliedErr (''Negative shift value: '' @ fmt_d rValue) lv)"
| "apply_op SHR lValue =
     (case lValue of
        [] \<Rightarrow> Raised IndexError
      | rValue # lv \<Rightarrow>
          if 0 \<le> rValue then unop (\<lambda>v. drop_bit (nat rValue) v) lv
          else AppliedErr (''Negative shift value: '' @ fmt_d rValue) lv)"
| "apply_op L2 lValue =
     (case lValue of
        [] \<Rightarrow> Raised IndexError
      | v # rest \<Rightarrow>
          (case L2_loop (drop_bit 1 v) 0 of
             None \<Rightarrow> Raised NonTermination
           | Some nBit \<Rightarrow> Applied (nBit # rest)))"
| "apply_op EQ lValue = binop (\<lambda>l r. TriArg (l = r) 0xFFFF 0) lValue"
| "apply_op NE lValue = binop (\<lambda>l r. TriArg (l \<noteq> r) 0xFFFF 0) lValue"
| "apply_op LT lValue = binop (\<lambda>l r. TriArg (l < r) 0xFFFF 0) lValue"
| "apply_op LE lValue = binop (\<lambda>l r. TriArg (l \<le> r) 0xFFFF 0) lValue"
| "apply_op GE lValue = binop (\<lambda>l r. TriArg (l \<ge> r) 0xFFFF 0) lValue"
| "apply_op GT lValue = binop (\<lambda>l r. TriArg (l > r) 0xFFFF 0) lValue"
| "apply_op Amp lValue = binop (\<lambda>l r. l AND r) lValue"
| "apply_op AND_w lValue = binop (\<lambda>l r. l AND r) lValue"
| "apply_op Bang lValue = binop (\<lambda>l r. l OR r) lValue"
| "apply_op OR_w lValue = binop (\<lambda>l r. l OR r) lValue"
| "apply_op Caret lValue = binop (\<lambda>l r. l XOR r) lValue"
| "apply_op XOR_w lValue = binop (\<lambda>l r. l XOR r) lValue"
| "apply_op LParen lValue = BreakParen"
| "apply_op RParen lValue = InvalidOp"
| "apply_op Comma lValue = InvalidOp"

text \<open>The inner \<^verbatim>\<open>while ( lOp )\<close> loop for an incoming operator of level \<open>rl\<close>.
  \<open>op\<close> is the Python variable of that name: it keeps the operator popped last, also
  across terms, and is unbound (\<open>None\<close>) until the first pop.\<close>

datatype unwind_result =
    Done "(int \<times> opr) list" "int list" "opr option" Assembler
  | Return0 Assembler
  | Crash py_exn

fun unwind ::
  "int \<Rightarrow> (int \<times> opr) list \<Rightarrow> int list \<Rightarrow> opr option \<Rightarrow> Assembler \<Rightarrow> unwind_result" where
  "unwind rl [] lValue op s = Done [] lValue op s"
| "unwind rl ((lvl, t) # lOp) lValue op s =
     (if lvl < rl then Done ((lvl, t) # lOp) lValue op s
      else
        (case apply_op t lValue of
           Applied lv \<Rightarrow> unwind rl lOp lv (Some t) s
         | AppliedErr msg lv \<Rightarrow> unwind rl lOp lv (Some t) (AsmErr s msg)
         | BreakParen \<Rightarrow> Done lOp lValue (Some t) s
         | InvalidOp \<Rightarrow> Return0 (AsmErr s (''Invalid expression operator: '' @ opr_str t))
         | Raised IndexError \<Rightarrow> Return0 (AsmErr s ''Expression evaluation error'')
         | Raised e \<Rightarrow> Crash e))"

text \<open>The label branch (lines 1296-1314): \<open>Inr (Some v)\<close> is the value pushed,
  \<open>Inr None\<close> the undefined label of pass 2 in an enabled block.\<close>

definition label_arg :: "Assembler \<Rightarrow> string \<Rightarrow> string" where
  "label_arg s arg = (if \<not> bLabCase s then lower arg else arg)"

definition find_label :: "Assembler \<Rightarrow> string \<Rightarrow> Label option" where
  "find_label s arg =
     (case labels s arg of
        None \<Rightarrow> publics s arg
      | Some label \<Rightarrow> Some label)"

definition label_rValue :: "Assembler \<Rightarrow> Label option \<Rightarrow> py_exn + int option" where
  "label_rValue s label =
     (case label of
        None \<Rightarrow> Inr None
      | Some lb \<Rightarrow>
          (case lab_value lb of
             None \<Rightarrow> Inr None
           | Some v \<Rightarrow>
               (case lab_seg lb of
                  None \<Rightarrow> Inl KeyError
                | Some sg \<Rightarrow> Inr (Some (v + base s sg)))))"

definition label_term :: "Assembler \<Rightarrow> string \<Rightarrow> py_exn + int option" where
  "label_term s arg =
     (case label_rValue s (find_label s arg) of
        Inl e \<Rightarrow> Inl e
      | Inr (Some rValue) \<Rightarrow> Inr (Some rValue)
      | Inr None \<Rightarrow>
          if phase s = 2 then
            (case enable_top s of
               Inl e \<Rightarrow> Inl e
             | Inr en \<Rightarrow> if en then Inr None else Inr (Some 0))
          else Inr (Some 0))"

definition ExprEval_finish ::
  "Assembler \<Rightarrow> int list \<Rightarrow> (int \<times> opr) list \<Rightarrow> py_exn + (int \<times> Assembler)" where
  "ExprEval_finish s lValue lOp =
     (if lOp = [] \<and> length lValue = 1 then Inr (lValue ! 0, s)
      else Inr (0, AsmErr s ''Expression evaluation error''))"

fun ExprEval_loop ::
  "Assembler \<Rightarrow> expr_term list \<Rightarrow> int list \<Rightarrow> (int \<times> opr) list \<Rightarrow> opr option
     \<Rightarrow> py_exn + (int \<times> Assembler)" where
  "ExprEval_loop s [] lValue lOp op = ExprEval_finish s lValue lOp"
| "ExprEval_loop s (TB v # ts) lValue lOp op = ExprEval_loop s ts (v # lValue) lOp op"
| "ExprEval_loop s (TD v # ts) lValue lOp op = ExprEval_loop s ts (v # lValue) lOp op"
| "ExprEval_loop s (TH v # ts) lValue lOp op = ExprEval_loop s ts (v # lValue) lOp op"
| "ExprEval_loop s (TQ v # ts) lValue lOp op = ExprEval_loop s ts (v # lValue) lOp op"
| "ExprEval_loop s (TStr arg # ts) lValue lOp op =
     ExprEval_loop s ts (str_value arg # lValue) lOp op"
| "ExprEval_loop s (TL arg # ts) lValue lOp op =
     (case label_term s (label_arg s arg) of
        Inl e \<Rightarrow> Inl e
      | Inr None \<Rightarrow> Inr (0, AsmErr s (''Undefined label: '' @ label_arg s arg))
      | Inr (Some rValue) \<Rightarrow> ExprEval_loop s ts (rValue # lValue) lOp op)"
| "ExprEval_loop s (TOp LParen # ts) lValue lOp op =
     ExprEval_loop s ts lValue ((evLvl (eval_mode s) LParen, LParen) # lOp) op"
| "ExprEval_loop s (TOp t # ts) lValue lOp op =
     (case unwind (evLvl (eval_mode s) t) lOp lValue op s of
        Crash e \<Rightarrow> Inl e
      | Return0 s1 \<Rightarrow> Inr (0, s1)
      | Done lOp1 lValue1 op1 s1 \<Rightarrow>
          if t = RParen then
            (case op1 of
               None \<Rightarrow> Inl UnboundLocalError
             | Some o1 \<Rightarrow>
                 if o1 = LParen then ExprEval_loop s1 ts lValue1 lOp1 op1
                 else Inr (0, AsmErr s1 ''Mismatched brackets''))
          else if t = Comma then ExprEval_finish s1 lValue1 lOp1
          else ExprEval_loop s1 ts lValue1 ((evLvl (eval_mode s1) t, t) # lOp1) op1)"

definition ExprEval :: "Assembler \<Rightarrow> expr_term list \<Rightarrow> py_exn + (int \<times> Assembler)" where
  "ExprEval s lExpr = ExprEval_loop s lExpr [] [] None"

text \<open>\<^verbatim>\<open>EvalArith\<close> evaluates the term list of the parsed expression.\<close>

definition EvalArith :: "Assembler \<Rightarrow> expr_term list \<Rightarrow> py_exn + (int \<times> Assembler)" where
  "EvalArith s lExpr = ExprEval s lExpr"

text \<open>What each range-checking wrapper does with the evaluated \<^verbatim>\<open>value\<close>: the result
  returned, and the state after a possible \<^verbatim>\<open>AsmErr\<close>. The test
  \<^verbatim>\<open>( self.phase == 2 ) and ( self.enable[-1] )\<close> is \<open>report\<close>.\<close>

definition report :: "Assembler \<Rightarrow> string \<Rightarrow> py_exn + (int \<times> Assembler)" where
  "report s msg =
     (if phase s = 2 then
        (case enable_top s of
           Inl e \<Rightarrow> Inl e
         | Inr en \<Rightarrow> if en then Inr (0, AsmErr s msg) else Inr (0, s))
      else Inr (0, s))"

definition range16 :: "Assembler \<Rightarrow> int \<Rightarrow> py_exn + (int \<times> Assembler)" where
  "range16 s v =
     (if - 0x8000 \<le> v \<and> v \<le> 0xFFFF then Inr (v AND 0xFFFF, s)
      else report s ''Invalid 16-bit value'')"

definition rangeS8 :: "Assembler \<Rightarrow> string \<Rightarrow> int \<Rightarrow> py_exn + (int \<times> Assembler)" where
  "rangeS8 s msg v =
     (if - 0x80 \<le> v \<and> v \<le> 0x7F then Inr (v AND 0xFF, s)
      else report s msg)"

definition rangeU8 :: "Assembler \<Rightarrow> string \<Rightarrow> int \<Rightarrow> py_exn + (int \<times> Assembler)" where
  "rangeU8 s msg v =
     (if 0 \<le> v \<and> v \<le> 0xFF then Inr (v AND 0xFF, s)
      else report s (msg @ '': 0x'' @ fmt_0X 4 v))"

definition range8 :: "Assembler \<Rightarrow> string \<Rightarrow> int \<Rightarrow> py_exn + (int \<times> Assembler)" where
  "range8 s msg v =
     (if 0xFF00 \<le> v \<and> v \<le> 0xFFFF then Inr (v AND 0xFF, s)
      else if - 0x80 < v \<and> v \<le> 0xFF then Inr (v AND 0xFF, s)
      else report s msg)"

definition EvalArith16 :: "Assembler \<Rightarrow> expr_term list \<Rightarrow> py_exn + (int \<times> Assembler)" where
  "EvalArith16 s lExpr =
     (case EvalArith s lExpr of Inl e \<Rightarrow> Inl e | Inr (v, s1) \<Rightarrow> range16 s1 v)"

definition EvalArithS8 ::
  "Assembler \<Rightarrow> expr_term list \<Rightarrow> string \<Rightarrow> py_exn + (int \<times> Assembler)" where
  "EvalArithS8 s lExpr msg =
     (case EvalArith s lExpr of Inl e \<Rightarrow> Inl e | Inr (v, s1) \<Rightarrow> rangeS8 s1 msg v)"

definition EvalArithU8 ::
  "Assembler \<Rightarrow> expr_term list \<Rightarrow> string \<Rightarrow> py_exn + (int \<times> Assembler)" where
  "EvalArithU8 s lExpr msg =
     (case EvalArith s lExpr of Inl e \<Rightarrow> Inl e | Inr (v, s1) \<Rightarrow> rangeU8 s1 msg v)"

definition EvalArith8 ::
  "Assembler \<Rightarrow> expr_term list \<Rightarrow> string \<Rightarrow> py_exn + (int \<times> Assembler)" where
  "EvalArith8 s lExpr msg =
     (case EvalArith s lExpr of Inl e \<Rightarrow> Inl e | Inr (v, s1) \<Rightarrow> range8 s1 msg v)"

subsection \<open>Symbol table (Public, Label)\<close>

text \<open>\<^verbatim>\<open>self.files[-1]\<close>, a pair of file name and line number.\<close>

definition files_top :: "Assembler \<Rightarrow> py_exn + (string \<times> int)" where
  "files_top s = (if files s = [] then Inl IndexError else Inr (last (files s)))"

definition Public :: "Assembler \<Rightarrow> string \<Rightarrow> py_exn + Assembler" where
  "Public s sLabel0 =
     (let sName = sLabel0;
          sLabel = (if \<not> bLabCase s then lower sLabel0 else sLabel0) in
      case publics s sLabel of
        Some label \<Rightarrow> Inr s
      | None \<Rightarrow>
          (case files_top s of
             Inl e \<Rightarrow> Inl e
           | Inr loc \<Rightarrow>
               Inr (s\<lparr>publics := (publics s)(sLabel \<mapsto>
                      \<lparr>lab_name = sName, lab_seg = None, lab_value = None,
                       lab_file = fst loc, lab_line = snd loc\<rparr>)\<rparr>)))"

text \<open>The look-up at the head of \<^verbatim>\<open>Label\<close> (lines 911-921): the record found, if
  any, and the final value of \<^verbatim>\<open>bPublic\<close>. A record that is kept from
  \<^verbatim>\<open>publics\<close> always leaves \<^verbatim>\<open>bPublic\<close> true, one from \<^verbatim>\<open>labels\<close> false, so
  \<^verbatim>\<open>bPublic\<close> also tells which dictionary holds the record.\<close>

definition Label_lookup ::
  "Assembler \<Rightarrow> string \<Rightarrow> bool \<Rightarrow> string \<Rightarrow> Label option \<times> bool" where
  "Label_lookup s sLabel bPublic tLoc0 =
     (case publics s sLabel of
        Some label \<Rightarrow>
          if \<not> bPublic then
            (if lab_file label = tLoc0 then (Some label, True) else (None, bPublic))
          else (Some label, bPublic)
      | None \<Rightarrow>
          if \<not> bPublic then (labels s sLabel, bPublic) else (None, bPublic))"

definition store_label :: "Assembler \<Rightarrow> bool \<Rightarrow> string \<Rightarrow> Label \<Rightarrow> Assembler" where
  "store_label s bPublic sLabel label =
     (if bPublic then s\<lparr>publics := (publics s)(sLabel \<mapsto> label)\<rparr>
      else s\<lparr>labels := (labels s)(sLabel \<mapsto> label)\<rparr>)"

definition msg_duplicate :: "int \<Rightarrow> string \<Rightarrow> int \<Rightarrow> int \<Rightarrow> string \<Rightarrow> int \<Rightarrow> string" where
  "msg_duplicate v1 f1 l1 v2 f2 l2 =
     ''Duplicate / inconsistent definition of label (0x'' @ fmt_0X 4 v1 @ '' in '' @ f1
       @ ''/'' @ fmt_d l1 @ '', 0x'' @ fmt_0X 4 v2 @ '' in '' @ f2 @ ''/'' @ fmt_d l2 @ '')''"

definition msg_phase :: "int \<Rightarrow> int \<Rightarrow> string" where
  "msg_phase v1 v2 =
     ''Label address not consistent between passes (0x'' @ fmt_0X 4 v1
       @ '' in pass 1, 0x'' @ fmt_0X 4 v2 @ '' in pass 2)''"

text \<open>The three branches of \<^verbatim>\<open>Label\<close> after the look-up: no record (lines
  922-929), a record in pass one (lines 930-945), a record in pass two (lines 946-955).
  \<open>sg\<close> and \<open>val\<close> are the segment and the value being defined, \<open>tLoc\<close> the
  current file and line.\<close>

definition Label_create ::
  "Assembler \<Rightarrow> bool \<Rightarrow> string \<Rightarrow> string \<Rightarrow> seg \<Rightarrow> int \<Rightarrow> string \<times> int \<Rightarrow> Assembler" where
  "Label_create s bPublic sLabel sName sg val tLoc =
     store_label s bPublic sLabel
       \<lparr>lab_name = sName, lab_seg = Some sg, lab_value = Some val,
        lab_file = fst tLoc, lab_line = snd tLoc\<rparr>"

definition Label_pass1 ::
  "Assembler \<Rightarrow> bool \<Rightarrow> string \<Rightarrow> Label \<Rightarrow> seg \<Rightarrow> int \<Rightarrow> string \<times> int \<Rightarrow> Assembler" where
  "Label_pass1 s bPublic sLabel lb sg val tLoc =
     (case lab_value lb of
        None \<Rightarrow>
          store_label s bPublic sLabel
            (lb\<lparr>lab_seg := Some sg, lab_value := Some val,
                lab_file := fst tLoc, lab_line := snd tLoc\<rparr>)
      | Some v \<Rightarrow>
          if bStrict s then
            AsmErr s (msg_duplicate v (lab_file lb) (lab_line lb) val (fst tLoc) (snd tLoc))
          else if v = val then s
          else AsmErr s (msg_duplicate v (lab_file lb) (lab_line lb) val (fst tLoc) (snd tLoc)))"

definition Label_pass2 :: "Assembler \<Rightarrow> Label \<Rightarrow> int \<Rightarrow> Assembler" where
  "Label_pass2 s lb val =
     (case lab_value lb of
        None \<Rightarrow> AsmErr s ''Label value not set in pass 1''
      | Some v \<Rightarrow> if v = val then s else AsmErr s (msg_phase v val))"

text \<open>\<^verbatim>\<open>Label (sLabel, bPublic, value)\<close>; \<open>value0 = None\<close> is the omitted argument,
  which takes the current program counter.\<close>

definition Asm_Label :: "Assembler \<Rightarrow> string \<Rightarrow> bool \<Rightarrow> int option \<Rightarrow> Assembler" where
  "Asm_Label s sLabel0 bPublic0 value0 =
     (let sName = sLabel0;
          tLoc = (if files s \<noteq> [] then last (files s) else (''Command Line'', 0));
          sLabel = (if \<not> bLabCase s then lower sLabel0 else sLabel0);
          sg = (case value0 of None \<Rightarrow> pseg s | Some v \<Rightarrow> SegA);
          val = (case value0 of None \<Rightarrow> pc s (pseg s) | Some v \<Rightarrow> v);
          found = Label_lookup s sLabel bPublic0 (fst tLoc) in
      case fst found of
        None \<Rightarrow> Label_create s (snd found) sLabel sName sg val tLoc
      | Some lb \<Rightarrow>
          if phase s = 1 then Label_pass1 s (snd found) sLabel lb sg val tLoc
          else Label_pass2 s lb val)"

subsection \<open>Emitting code (Code, Address, SetLoad)\<close>

text \<open>\<^verbatim>\<open>Code\<close> with an integer appends it to the bytearray \<^verbatim>\<open>mc\<close>, which raises
  \<^verbatim>\<open>ValueError\<close> outside 0..255; with bytes it appends them all.\<close>

definition Code_int :: "Assembler \<Rightarrow> int \<Rightarrow> py_exn + Assembler" where
  "Code_int s byCode =
     (if 0 \<le> byCode \<and> byCode \<le> 255 then Inr (s\<lparr>mc := mc s @ [byCode]\<rparr>)
      else Inl ValueError)"

definition Code_bytes :: "Assembler \<Rightarrow> int list \<Rightarrow> Assembler" where
  "Code_bytes s byCode = s\<lparr>mc := mc s @ byCode\<rparr>"

fun HexFmt :: "int \<Rightarrow> nat \<Rightarrow> string" where
  "HexFmt v d = (if v < 0 then CHR ''-'' # ''0x'' @ fmt_0X d (- v) else ''0x'' @ fmt_0X d v)"

definition Address :: "Assembler \<Rightarrow> int \<Rightarrow> py_exn + Assembler" where
  "Address s ad0 =
     (let ad = (if ad0 < 0 then ad0 + 0x10000 else ad0) in
      if phase s = 2 \<and> (ad < 0 \<or> 0xFFFF < ad) then
        Inr (Code_bytes (AsmErr s (''Address '' @ HexFmt ad 4 @ '' out of range'')) [0, 0])
      else
        (case Code_int s (ad AND 0xFF) of
           Inl e \<Rightarrow> Inl e
         | Inr s1 \<Rightarrow> Code_int s1 (drop_bit 8 ad AND 0xFF)))"

definition SetLoad :: "Assembler \<Rightarrow> int \<Rightarrow> bool \<Rightarrow> py_exn + Assembler" where
  "SetLoad s a bInit =
     (let s1 = (if \<not> bUpdate s \<and> a < lc s (lseg s)
                then AsmErr s ''Potential overwite of previous code'' else s);
          s2 = s1\<lparr>lc := (lc s1)(lseg s1 := a)\<rparr> in
      if phase s2 = 2 then
        (case (case binout s2 of
                 None \<Rightarrow> Inr None
               | Some b \<Rightarrow>
                   (case BinOut_SetAddr b (lc s2 (lseg s2)) bInit of
                      Inl e \<Rightarrow> Inl e
                    | Inr b1 \<Rightarrow> Inr (Some b1))) of
           Inl e \<Rightarrow> Inl e
         | Inr bo \<Rightarrow>
             Inr (s2\<lparr>binout := bo,
                     hexout := map_option (\<lambda>h. HexOut_SetAddr h (lc s2 (lseg s2)) bInit)
                                 (hexout s2)\<rparr>))
      else Inr s2)"

subsection \<open>Instruction tables\<close>

text \<open>The dictionary \<^verbatim>\<open>op0\<close> (lines 658-692), each bytes literal as its list of
  bytes. The literal \<^verbatim>\<open>b'\xED45'\<close> of \<^verbatim>\<open>RETN\<close> is the byte 0xED followed by the
  characters \<^verbatim>\<open>4\<close> and \<^verbatim>\<open>5\<close>.\<close>

definition op0_table :: "(string \<times> int list) list" where
  "op0_table =
     [(''CCF'', [0x3F]), (''CPD'', [0xED, 0xA9]), (''CPDR'', [0xED, 0xB9]),
      (''CPI'', [0xED, 0xA1]), (''CPIR'', [0xED, 0xB1]), (''CPL'', [0x2F]),
      (''DAA'', [0x27]), (''DI'', [0xF3]), (''EI'', [0xFB]), (''EXX'', [0xD9]),
      (''HALT'', [0x76]), (''IND'', [0xED, 0xAA]), (''INDR'', [0xED, 0xBA]),
      (''INI'', [0xED, 0xA2]), (''INIR'', [0xED, 0xB2]), (''LDD'', [0xED, 0xA8]),
      (''LDDR'', [0xED, 0xB8]), (''LDI'', [0xED, 0xA0]), (''LDIR'', [0xED, 0xB0]),
      (''NEG'', [0xED, 0x44]), (''NOP'', [0x00]), (''OUTD'', [0xED, 0xAB]),
      (''OTDR'', [0xED, 0xBB]), (''OUTI'', [0xED, 0xA3]), (''OTIR'', [0xED, 0xB3]),
      (''RETI'', [0xED, 0x4D]), (''RETN'', [0xED, 0x34, 0x35]), (''RLA'', [0x17]),
      (''RLCA'', [0x07]), (''RLD'', [0xED, 0x6F]), (''RRA'', [0x1F]),
      (''RRCA'', [0x0F]), (''RRD'', [0xED, 0x67]), (''SCF'', [0x37])]"

definition op0 :: "string \<Rightarrow> int list option" where
  "op0 = map_of op0_table"

definition cond_table :: "(string \<times> int) list" where
  "cond_table =
     [(''NZ'', 0x00), (''Z'', 0x08), (''NC'', 0x10), (''C'', 0x18), (''PO'', 0x20),
      (''PE'', 0x28), (''P'', 0x30), (''M'', 0x38), (''HS'', 0x10), (''LO'', 0x18),
      (''MI'', 0x38)]"

definition cond :: "string \<Rightarrow> int option" where
  "cond = map_of cond_table"

definition opC :: "string \<Rightarrow> (int \<times> int) option" where
  "opC = map_of [(''CALL'', (0xCD, 0xC4)), (''JP'', (0xC3, 0xC2)), (''JR'', (0x18, 0x20))]"

text \<open>\<^verbatim>\<open>str.upper\<close> on latin-1 text. The sharp s becomes \<^verbatim>\<open>SS\<close>; the micro sign and
  the y with diaeresis have capitals outside latin-1 and stand for themselves here, which
  no comparison with an ASCII key can tell apart.\<close>

definition upper_char :: "char \<Rightarrow> string" where
  "upper_char c =
     (let n = (of_char c :: nat) in
      if 0x61 \<le> n \<and> n \<le> 0x7A then [char_of (n - 0x20)]
      else if n = 0xDF then ''SS''
      else if n = 0xF7 then [c]
      else if 0xE0 \<le> n \<and> n \<le> 0xFE then [char_of (n - 0x20)]
      else [c])"

definition upper :: "string \<Rightarrow> string" where
  "upper str = concat (map upper_char str)"

subsection \<open>The line parser (Parse)\<close>

text \<open>
  \<^verbatim>\<open>Parse\<close> is modelled on tokenised lines for the directives and instructions below:
  labels and \<^verbatim>\<open>EQU\<close>, \<^verbatim>\<open>END\<close>, \<^verbatim>\<open>IF\<close>/\<^verbatim>\<open>IFT\<close>/\<^verbatim>\<open>IFF\<close>/\<^verbatim>\<open>IFNOT\<close>/\<^verbatim>\<open>ELSE\<close>/\<^verbatim>\<open>ENDIF\<close>,
  \<^verbatim>\<open>REPT\<close>/\<^verbatim>\<open>ENDM\<close>, \<^verbatim>\<open>ORG\<close>, \<^verbatim>\<open>DB\<close>/\<^verbatim>\<open>DEFB\<close>, \<^verbatim>\<open>DS\<close>/\<^verbatim>\<open>DEFS\<close>, \<^verbatim>\<open>BYTE\<close>/\<^verbatim>\<open>WORD\<close>,
  the zero-operand Z80 instructions, \<^verbatim>\<open>CALL\<close>/\<^verbatim>\<open>JP\<close>/\<^verbatim>\<open>JR\<close> and \<^verbatim>\<open>DJNZ\<close>. Every other
  mnemonic, and every argument shape whose treatment needs the raw text of the line,
  yields \<open>Outside\<close>: the model says nothing about it. The argument expressions are
  taken to parse without error. The listing and the reformatter's line buffer are not
  part of the state.
\<close>

datatype stop = Raise py_exn | Outside

datatype action = NoAction | ActI | ActX

definition lift :: "py_exn + 'a \<Rightarrow> stop + 'a" where
  "lift r = (case r of Inl e \<Rightarrow> Inl (Raise e) | Inr x \<Rightarrow> Inr x)"

definition first_expr :: "(string \<times> expr_term list) list \<Rightarrow> expr_term list" where
  "first_expr args = (case args of [] \<Rightarrow> [TOp Comma] | a # rest \<Rightarrow> snd a)"

text \<open>Lines 1687-1698.\<close>

definition Parse_EQU ::
  "Assembler \<Rightarrow> (string \<times> bool) option \<Rightarrow> (string \<times> expr_term list) list
     \<Rightarrow> stop + (action \<times> Assembler)" where
  "Parse_EQU s lbl args =
     (case lbl of
        None \<Rightarrow> Inr (NoAction, AsmErr s ''EQUate with no label'')
      | Some (sLabel, bPublic) \<Rightarrow>
          (case enable_top s of
             Inl e \<Rightarrow> Inl (Raise e)
           | Inr en \<Rightarrow>
               if en then
                 (case EvalArith (s\<lparr>ltype := CHR ''E''\<rparr>) (first_expr args) of
                    Inl e \<Rightarrow> Inl (Raise e)
                  | Inr (v, s1) \<Rightarrow>
                      Inr (NoAction, Asm_Label (s1\<lparr>eq_val := v\<rparr>) sLabel bPublic (Some v)))
               else Inr (NoAction, s)))"

text \<open>Lines 1699-1702: a label in front of a statement.\<close>

definition Parse_label :: "Assembler \<Rightarrow> (string \<times> bool) option \<Rightarrow> stop + Assembler" where
  "Parse_label s lbl =
     (case lbl of
        None \<Rightarrow> Inr s
      | Some (sLabel, bPublic) \<Rightarrow>
          if sLabel = [] then Inr s
          else
            (case enable_top s of
               Inl e \<Rightarrow> Inl (Raise e)
             | Inr en \<Rightarrow> Inr (if en then Asm_Label s sLabel bPublic None else s)))"

text \<open>Lines 1706-1712.\<close>

definition Parse_END ::
  "Assembler \<Rightarrow> (string \<times> expr_term list) list \<Rightarrow> stop + (action \<times> Assembler)" where
  "Parse_END s args =
     (case enable_top s of
        Inl e \<Rightarrow> Inl (Raise e)
      | Inr en \<Rightarrow>
          if en then
            (if args = [] then Inr (ActX, s\<lparr>ltype := CHR ''P''\<rparr>)
             else
               (case EvalArith16 s (first_expr args) of
                  Inl e \<Rightarrow> Inl (Raise e)
                | Inr (v, s1) \<Rightarrow> Inr (ActX, s1\<lparr>begin_addr := v, ltype := CHR ''P''\<rparr>)))
          else Inr (NoAction, s))"

text \<open>Lines 1768-1777: \<open>want\<close> is true for \<^verbatim>\<open>IF\<close>/\<^verbatim>\<open>IFT\<close> (condition non-zero) and
  false for \<^verbatim>\<open>IFF\<close>/\<^verbatim>\<open>IFNOT\<close>. Python's \<^verbatim>\<open>and\<close> does not evaluate the
  expression in a disabled block.\<close>

definition Parse_IF ::
  "Assembler \<Rightarrow> bool \<Rightarrow> (string \<times> expr_term list) list \<Rightarrow> stop + (action \<times> Assembler)" where
  "Parse_IF s want args =
     (case enable_top s of
        Inl e \<Rightarrow> Inl (Raise e)
      | Inr en \<Rightarrow>
          if en then
            (case EvalArith16 s (first_expr args) of
               Inl e \<Rightarrow> Inl (Raise e)
             | Inr (v, s1) \<Rightarrow>
                 Inr (NoAction,
                      s1\<lparr>enable := enable s1 @ [if want then v \<noteq> 0 else v = 0],
                         ltype := CHR ''P''\<rparr>))
          else Inr (NoAction, s\<lparr>enable := enable s @ [False], ltype := CHR ''P''\<rparr>))"

text \<open>Lines 1778-1785.\<close>

definition Parse_ELSE :: "Assembler \<Rightarrow> Assembler" where
  "Parse_ELSE s =
     (let en = enable s; n = length en in
      (if 2 \<le> n then s\<lparr>enable := butlast en @ [en ! (n - 2) \<and> \<not> en ! (n - 1)]\<rparr>
       else AsmErr s ''ELSE without IF'')\<lparr>ltype := CHR ''P''\<rparr>)"

text \<open>Lines 1786-1794.\<close>

definition Parse_ENDIF :: "Assembler \<Rightarrow> Assembler" where
  "Parse_ENDIF s =
     (let s1 = s\<lparr>ltype := CHR ''P''\<rparr> in
      if length (enable s1) < 2 then AsmErr s1 ''ENDIF with no corresponding IF''
      else s1\<lparr>enable := butlast (enable s1)\<rparr>)"

text \<open>Lines 1795-1800. \<^verbatim>\<open>self.handles[-1].tell ()\<close> is the read position of the
  newest handle.\<close>

definition Parse_REPT ::
  "Assembler \<Rightarrow> (string \<times> expr_term list) list \<Rightarrow> stop + (action \<times> Assembler)" where
  "Parse_REPT s args =
     (case enable_top s of
        Inl e \<Rightarrow> Inl (Raise e)
      | Inr en \<Rightarrow>
          if en then
            (case EvalArith s (first_expr args) of
               Inl e \<Rightarrow> Inl (Raise e)
             | Inr (nRept, s1) \<Rightarrow>
                 if 0 < nRept then
                   (if handles s1 = [] then Inl (Raise IndexError)
                    else
                      (let h = last (handles s1) in
                       Inr (NoAction, s1\<lparr>macros := macros s1 @ [(fh_id h, fh_pos h, nRept)]\<rparr>)))
                 else Inr (NoAction, s1))
          else Inr (NoAction, s))"

text \<open>Lines 1801-1815. Every record on \<^verbatim>\<open>macros\<close> has kind \<^verbatim>\<open>'R'\<close>.\<close>

definition Parse_ENDM :: "Assembler \<Rightarrow> stop + (action \<times> Assembler)" where
  "Parse_ENDM s =
     (if length (macros s) = 0 then Inr (NoAction, AsmErr s ''ENDM without macro'')
      else
        (let (hid, off, cnt) = last (macros s);
             s1 = s\<lparr>macros := butlast (macros s)\<rparr>;
             cnt1 = cnt - 1 in
         if 0 < cnt1 then
           (if handles s1 = [] then Inl (Raise IndexError)
            else if hid = fh_id (last (handles s1)) then
              Inr (NoAction,
                   s1\<lparr>handles := butlast (handles s1) @ [(last (handles s1))\<lparr>fh_pos := off\<rparr>],
                      macros := macros s1 @ [(hid, off, cnt1)]\<rparr>)
            else Inr (NoAction, AsmErr s1 ''Start and end of macro in different files''))
         else Inr (NoAction, s1)))"

text \<open>\<^verbatim>\<open>ORG\<close> in the MA dialect (lines 1918-1926), in M80 and PASMO (lines
  1956-1964), and in ZASM (lines 1992-2000).\<close>

definition Parse_ORG ::
  "Assembler \<Rightarrow> (string \<times> expr_term list) list \<Rightarrow> stop + (action \<times> Assembler)" where
  "Parse_ORG s0 args =
     (let s = s0\<lparr>bUpdate := ''ORG'' \<in> set (lOrgUpd s0)\<rparr> in
      if style s = ZASM then
        (case EvalArith16 s (first_expr args) of
           Inl e \<Rightarrow> Inl (Raise e)
         | Inr (a, s1) \<Rightarrow>
             (case enable_top s1 of
                Inl e \<Rightarrow> Inl (Raise e)
              | Inr en \<Rightarrow>
                  Inr (NoAction,
                       (if en then s1\<lparr>pc := (pc s1)(pseg s1 := a)\<rparr> else s1)
                         \<lparr>ltype := CHR ''P''\<rparr>)))
      else
        (case EvalArith s (first_expr args) of
           Inl e \<Rightarrow> Inl (Raise e)
         | Inr (a, s1) \<Rightarrow>
             (case enable_top s1 of
                Inl e \<Rightarrow> Inl (Raise e)
              | Inr en \<Rightarrow>
                  if en then
                    (case SetLoad s1 a True of
                       Inl e \<Rightarrow> Inl (Raise e)
                     | Inr s2 \<Rightarrow>
                         Inr (NoAction,
                              s2\<lparr>pc := (pc s2)(pseg s2 :=
                                     (if style s2 = MA then lc s2 (lseg s2) + offset s2
                                      else lc s2 (lseg s2))),
                                 ltype := CHR ''P''\<rparr>))
                  else Inr (NoAction, s1\<lparr>ltype := CHR ''P''\<rparr>))))"

text \<open>\<^verbatim>\<open>EvalString\<close> outside the ZASM dialect (lines 1490-1525), on the term list of
  one argument. The message of its range error quotes the raw argument text.\<close>

definition EvalString :: "Assembler \<Rightarrow> expr_term list \<Rightarrow> stop + (int list \<times> Assembler)" where
  "EvalString s lExpr =
     (if style s = ZASM then Inl Outside
      else
        (case lExpr of
           [TStr str, t] \<Rightarrow> Inr (map ord str, s)
         | _ \<Rightarrow>
             (case ExprEval s lExpr of
                Inl e \<Rightarrow> Inl (Raise e)
              | Inr (v, s1) \<Rightarrow>
                  if phase s1 = 2 then
                    (case enable_top s1 of
                       Inl e \<Rightarrow> Inl (Raise e)
                     | Inr en \<Rightarrow>
                         if en \<and> 0xFF < v \<and> v < 0xFF80 then Inl Outside
                         else Inr ([v AND 0xFF], s1))
                  else Inr ([v AND 0xFF], s1))))"

text \<open>\<^verbatim>\<open>while ( self.sArgs > '' ): self.Code (self.EvalString (self.sArgs, True))\<close>,
  one round for each argument (lines 2002-2006).\<close>

fun Parse_DB ::
  "Assembler \<Rightarrow> (string \<times> expr_term list) list \<Rightarrow> stop + (action \<times> Assembler)" where
  "Parse_DB s [] = Inr (NoAction, s)"
| "Parse_DB s (a # args) =
     (case EvalString s (snd a) of
        Inl e \<Rightarrow> Inl e
      | Inr (byStr, s1) \<Rightarrow> Parse_DB (Code_bytes s1 byStr) args)"

text \<open>The space reserved by \<^verbatim>\<open>DS\<close> in M80 and PASMO (\<open>mult = 1\<close>), by \<^verbatim>\<open>BYTE\<close>
  (\<open>mult = 1\<close>) and by \<^verbatim>\<open>WORD\<close> (\<open>mult = 2\<close>), lines 2041-2062.\<close>

definition Parse_space ::
  "Assembler \<Rightarrow> int \<Rightarrow> (string \<times> expr_term list) list \<Rightarrow> stop + (action \<times> Assembler)" where
  "Parse_space s mult args =
     (case EvalArith16 s (first_expr args) of
        Inl e \<Rightarrow> Inl (Raise e)
      | Inr (v, s1) \<Rightarrow>
          (case enable_top s1 of
             Inl e \<Rightarrow> Inl (Raise e)
           | Inr en \<Rightarrow> Inr (NoAction, if en then s1\<lparr>nSpace := v * mult\<rparr> else s1)))"

text \<open>The zero-operand instructions (lines 2230-2237). \<^verbatim>\<open>nCh != -1\<close> holds exactly
  when the mnemonic is followed by arguments.\<close>

definition Parse_op0 ::
  "Assembler \<Rightarrow> int list \<Rightarrow> (string \<times> expr_term list) list \<Rightarrow> stop + (action \<times> Assembler)"
  where
  "Parse_op0 s byCode args =
     (if args \<noteq> [] then Inr (NoAction, AsmErr s ''Unexpected arguments to opcode'')
      else Inr (NoAction, Code_bytes s byCode))"

text \<open>The displacement of a relative jump: \<^verbatim>\<open>address -= self.pc[self.pseg] +
  self.base[self.pseg] + 2\<close>.\<close>

definition rel_disp :: "Assembler \<Rightarrow> int \<Rightarrow> int" where
  "rel_disp s a = a - (pc s (pseg s) + base s (pseg s) + 2)"

text \<open>\<^verbatim>\<open>( self.phase == 2 ) and ( self.enable[-1] ) and ( ( address < -128 ) or
  ( address > 127 ) )\<close>.\<close>

definition jump_out_of_range :: "Assembler \<Rightarrow> int \<Rightarrow> py_exn + bool" where
  "jump_out_of_range s a =
     (if phase s = 2 then
        (case enable_top s of
           Inl e \<Rightarrow> Inl e
         | Inr en \<Rightarrow> Inr (en \<and> (a < - 128 \<or> 127 < a)))
      else Inr False)"

text \<open>The tail of the call-and-jump branch once the opcode byte and the condition are
  known (lines 2337-2352).\<close>

definition Parse_jump ::
  "Assembler \<Rightarrow> string \<Rightarrow> int \<Rightarrow> int \<Rightarrow> string \<Rightarrow> expr_term list
     \<Rightarrow> stop + (action \<times> Assembler)" where
  "Parse_jump s sOpCode byCode byCond sArg1 lExpr =
     (case EvalArith16 s lExpr of
        Inl e \<Rightarrow> Inl (Raise e)
      | Inr (a, s1) \<Rightarrow>
          if sOpCode = ''JR'' then
            (if 0x20 \<le> byCond then
               Inr (NoAction, AsmErr s1 (''Condition code not supported by JR: '' @ sArg1))
             else
               (let d = rel_disp s1 a in
                case jump_out_of_range s1 d of
                  Inl e \<Rightarrow> Inl (Raise e)
                | Inr bad \<Rightarrow>
                    (let s2 = (if bad
                               then AsmErr s1 (''Relative jump out of range: '' @ fmt_d d)
                               else s1);
                         d1 = (if bad then 0 else d) in
                     case Code_int s2 byCode of
                       Inl e \<Rightarrow> Inl (Raise e)
                     | Inr s3 \<Rightarrow>
                         (case Code_int s3 (d1 AND 0xFF) of
                            Inl e \<Rightarrow> Inl (Raise e)
                          | Inr s4 \<Rightarrow> Inr (NoAction, s4)))))
          else
            (case Code_int s1 byCode of
               Inl e \<Rightarrow> Inl (Raise e)
             | Inr s2 \<Rightarrow>
                 (case Address s2 a of
                    Inl e \<Rightarrow> Inl (Raise e)
                  | Inr s3 \<Rightarrow> Inr (NoAction, s3))))"

text \<open>\<^verbatim>\<open>FindChar\<close> (lines 22-32): the position of the first of the characters
  \<open>lFind\<close> outside quotes, or -1.\<close>

fun FindChar_loop :: "string \<Rightarrow> string \<Rightarrow> char option \<Rightarrow> int \<Rightarrow> int" where
  "FindChar_loop [] lFind quote iCh = - 1"
| "FindChar_loop (ch # rest) lFind quote iCh =
     (if ch = CHR 0x22 \<or> ch = CHR 0x27 then
        (if quote = None then FindChar_loop rest lFind (Some ch) (iCh + 1)
         else if quote = Some ch then FindChar_loop rest lFind None (iCh + 1)
         else FindChar_loop rest lFind quote (iCh + 1))
      else if ch \<in> set lFind \<and> quote = None then iCh
      else FindChar_loop rest lFind quote (iCh + 1))"

definition FindChar :: "string \<Rightarrow> string \<Rightarrow> int" where
  "FindChar sLine lFind = FindChar_loop sLine lFind None 0"

text \<open>\<^verbatim>\<open>CountFields\<close> (lines 34-50): the number of fields between separators
  outside quotes.\<close>

fun CountFields_loop :: "string \<Rightarrow> string \<Rightarrow> char option \<Rightarrow> bool \<Rightarrow> int \<Rightarrow> int" where
  "CountFields_loop [] lSep quote bSep nField = nField"
| "CountFields_loop (ch # rest) lSep quote bSep nField =
     (if quote = None \<and> ch \<in> set lSep then CountFields_loop rest lSep quote True nField
      else
        (let nField1 = (if bSep then nField + 1 else nField) in
         if ch = CHR 0x22 \<or> ch = CHR 0x27 then
           (if quote = None then CountFields_loop rest lSep (Some ch) False nField1
            else if quote = Some ch then CountFields_loop rest lSep None False nField1
            else CountFields_loop rest lSep quote False nField1)
         else CountFields_loop rest lSep quote False nField1))"

definition CountFields :: "string \<Rightarrow> string \<Rightarrow> int" where
  "CountFields sLine lSep = CountFields_loop sLine lSep None True 0"

text \<open>\<^verbatim>\<open>str.strip\<close> removes the white space of \<^verbatim>\<open>str.isspace\<close> at both ends; in
  latin-1 that is 0x09..0x0D, 0x1C..0x20, 0x85 and 0xA0.\<close>

definition isspace :: "char \<Rightarrow> bool" where
  "isspace c =
     (let n = (of_char c :: nat) in
      (0x09 \<le> n \<and> n \<le> 0x0D) \<or> (0x1C \<le> n \<and> n \<le> 0x20) \<or> n = 0x85 \<or> n = 0xA0)"

definition strip :: "string \<Rightarrow> string" where
  "strip str = rev (dropWhile isspace (rev (dropWhile isspace str)))"

text \<open>The argument text \<^verbatim>\<open>self.sArgs\<close> of a statement: the texts of its arguments,
  separated by commas.\<close>

fun join_args :: "(string \<times> expr_term list) list \<Rightarrow> string" where
  "join_args [] = []"
| "join_args [a] = fst a"
| "join_args (a # b # rest) = fst a @ '','' @ join_args (b # rest)"

text \<open>\<^verbatim>\<open>NumArgs\<close> and \<^verbatim>\<open>PopArg\<close> (lines 1582-1600) on the argument text. With
  \<^verbatim>\<open>bSpace\<close> blanks and tabs separate arguments as well; \<^verbatim>\<open>PopArg\<close> still prefers
  the first comma. \<^verbatim>\<open>PopArg\<close> gives the argument, the text left and the state.\<close>

definition NumArgs :: "string \<Rightarrow> bool \<Rightarrow> int" where
  "NumArgs sText bSpace =
     (if bSpace then CountFields sText [CHR '','', CHR '' '', CHR 0x09]
      else CountFields sText '','')"

definition PopArg :: "Assembler \<Rightarrow> string \<Rightarrow> bool \<Rightarrow> string \<times> string \<times> Assembler" where
  "PopArg s sText bSpace =
     (if sText = [] then ([], [], AsmErr s ''Missing argument'')
      else
        (let nCh0 = FindChar sText '','';
             nCh = (if nCh0 < 0 \<and> bSpace then FindChar sText [CHR '' '', CHR 0x09] else nCh0) in
         if 0 \<le> nCh then
           (strip (take (nat nCh) sText), strip (drop (nat nCh + 1) sText), s)
         else (sText, [], s)))"

text \<open>\<^verbatim>\<open>CALL\<close>, \<^verbatim>\<open>JP\<close> and \<^verbatim>\<open>JR\<close> (lines 2307-2336): with one argument field
  it is the unconditional form, otherwise the first argument is popped as the condition.
  In the MA dialect blanks and tabs separate the fields as well as commas. The jump
  target is the expression of the argument text; its terms are known when that text is
  a whole argument of the line: the only one in the unconditional form, the second of
  two when the condition was popped at the comma between them.\<close>

definition Parse_opC ::
  "Assembler \<Rightarrow> string \<Rightarrow> int \<times> int \<Rightarrow> (string \<times> expr_term list) list
     \<Rightarrow> stop + (action \<times> Assembler)" where
  "Parse_opC s sOpCode byCodes args =
     (let sText = join_args args; bSpace = (style s = MA) in
      if NumArgs sText bSpace = 1 then
        (let sArg1 = upper sText in
         if sOpCode = ''JP'' \<and> sArg1 = ''(HL)'' then Inr (NoAction, Code_bytes s [0xE9])
         else if sOpCode = ''JP'' \<and> sArg1 = ''(IX)'' then
           Inr (NoAction, Code_bytes s [0xDD, 0xE9])
         else if sOpCode = ''JP'' \<and> sArg1 = ''(IY)'' then
           Inr (NoAction, Code_bytes s [0xFD, 0xE9])
         else
           (case args of
              [a] \<Rightarrow> Parse_jump s sOpCode (fst byCodes) 0 sArg1 (snd a)
            | _ \<Rightarrow> Inl Outside))
      else
        (case PopArg s sText bSpace of
           (sArg, sRest, s1) \<Rightarrow>
             (let sArg1 = upper sArg in
              case cond sArg1 of
                None \<Rightarrow> Inr (NoAction, AsmErr s1 (''Invalid condition code: '' @ sArg1))
              | Some byCond \<Rightarrow>
                  (case args of
                     [a, b] \<Rightarrow>
                       if FindChar sText '','' = int (length (fst a)) then
                         Parse_jump s1 sOpCode (snd byCodes + byCond) byCond sArg1 (snd b)
                       else Inl Outside
                   | _ \<Rightarrow> Inl Outside))))"

text \<open>\<^verbatim>\<open>DJNZ\<close> (lines 2372-2382).\<close>

definition Parse_DJNZ ::
  "Assembler \<Rightarrow> (string \<times> expr_term list) list \<Rightarrow> stop + (action \<times> Assembler)" where
  "Parse_DJNZ s args =
     (if 2 \<le> length args then Inl Outside
      else
        (case EvalArith16 s (first_expr args) of
           Inl e \<Rightarrow> Inl (Raise e)
         | Inr (a, s1) \<Rightarrow>
             (let d = rel_disp s1 a in
              case Code_int s1 0x10 of
                Inl e \<Rightarrow> Inl (Raise e)
              | Inr s2 \<Rightarrow>
                  (case Code_int s2 (d AND 0xFF) of
                     Inl e \<Rightarrow> Inl (Raise e)
                   | Inr s3 \<Rightarrow>
                       (case jump_out_of_range s3 d of
                          Inl e \<Rightarrow> Inl (Raise e)
                        | Inr bad \<Rightarrow>
                            Inr (NoAction,
                                 if bad
                                 then AsmErr s3 (''Relative jump out of range: '' @ fmt_d d)
                                 else s3))))))"

text \<open>The dispatch on the mnemonic, in the order of the source (lines 1706-2382).\<close>

definition Parse_dispatch ::
  "Assembler \<Rightarrow> string \<Rightarrow> (string \<times> expr_term list) list \<Rightarrow> stop + (action \<times> Assembler)"
  where
  "Parse_dispatch s sOpCode args =
     (if sOpCode = ''END'' then Parse_END s args
      else if sOpCode \<in> set [''IF'', ''IFT''] then Parse_IF s True args
      else if sOpCode \<in> set [''IFF'', ''IFNOT''] then Parse_IF s False args
      else if sOpCode = ''ELSE'' then Inr (NoAction, Parse_ELSE s)
      else if sOpCode = ''ENDIF'' then Inr (NoAction, Parse_ENDIF s)
      else if sOpCode = ''REPT'' then Parse_REPT s args
      else if sOpCode = ''ENDM'' then Parse_ENDM s
      else if sOpCode = ''ORG'' then Parse_ORG s args
      else if sOpCode \<in> set [''DB'', ''DEFB''] then Parse_DB s args
      else if sOpCode \<in> set [''DS'', ''DEFS''] then
        (if style s \<in> set [M80, PASMO] then Parse_space s 1 args else Parse_DB s args)
      else if sOpCode = ''BYTE'' then Parse_space s 1 args
      else if sOpCode = ''WORD'' then Parse_space s 2 args
      else if cpu_type s = CPU_8080 then Inl Outside
      else
        (case op0 sOpCode of
           Some byCode \<Rightarrow> Parse_op0 s byCode args
         | None \<Rightarrow>
             (let sOpCode1 = (if sOpCode = ''JMP'' then ''JP'' else sOpCode) in
              case opC sOpCode1 of
                Some byCodes \<Rightarrow> Parse_opC s sOpCode1 byCodes args
              | None \<Rightarrow>
                  if sOpCode1 = ''DJNZ'' then Parse_DJNZ s args else Inl Outside)))"

text \<open>Lines 1644-1648: the automatic label \<^verbatim>\<open>$\<close> follows the program counter.\<close>

definition auto_label :: "Assembler \<Rightarrow> py_exn + Assembler" where
  "auto_label s =
     (case labels s ''$'' of
        None \<Rightarrow> Inl KeyError
      | Some auto \<Rightarrow>
          (case files_top s of
             Inl e \<Rightarrow> Inl e
           | Inr loc \<Rightarrow>
               Inr (s\<lparr>labels := (labels s)(''$'' \<mapsto>
                      auto\<lparr>lab_seg := Some (pseg s), lab_value := Some (pc s (pseg s)),
                           lab_line := snd loc\<rparr>)\<rparr>)))"

text \<open>Lines 1617-1621: the error, the bytes and the reserved space of the line start
  empty.\<close>

definition Parse_reset :: "Assembler \<Rightarrow> Assembler" where
  "Parse_reset s = s\<lparr>sErr := None, mc := [], nSpace := 0, ltype := CHR ''A''\<rparr>"

definition Parse :: "Assembler \<Rightarrow> src_line \<Rightarrow> stop + (action \<times> Assembler)" where
  "Parse s0 sLine =
     (let s = Parse_reset s0 in
      case sLine of
        Blank \<Rightarrow> Inr (NoAction, s\<lparr>ltype := CHR ''C''\<rparr>)
      | DotLabel sLabel \<Rightarrow>
          (case auto_label s of
             Inl e \<Rightarrow> Inl (Raise e)
           | Inr s1 \<Rightarrow>
               if style s1 = MA then
                 (case enable_top s1 of
                    Inl e \<Rightarrow> Inl (Raise e)
                  | Inr en \<Rightarrow> Inr (NoAction, if en then Asm_Label s1 sLabel True None else s1))
               else Inl Outside)
      | Stmt lbl sOpCode args \<Rightarrow>
          (case auto_label s of
             Inl e \<Rightarrow> Inl (Raise e)
           | Inr s1 \<Rightarrow>
               if sOpCode = ''EQU'' then Parse_EQU s1 lbl args
               else
                 (case Parse_label s1 lbl of
                    Inl e \<Rightarrow> Inl e
                  | Inr s2 \<Rightarrow>
                      if sOpCode = [] then Inr (NoAction, s2)
                      else Parse_dispatch s2 sOpCode args)))"

subsection \<open>One pass over a source file (AsmPass)\<close>

text \<open>Lines 2770-2780: the emitted bytes go to the sinks, and both counters advance
  by the number of bytes plus the reserved space.\<close>

definition advance :: "Assembler \<Rightarrow> py_exn + Assembler" where
  "advance s =
     (case enable_top s of
        Inl e \<Rightarrow> Inl e
      | Inr en \<Rightarrow>
          if en then
            (let nCode = int (length (mc s)) in
             case (if 0 < nCode then
                     (case SetLoad s (lc s (lseg s)) False of
                        Inl e \<Rightarrow> Inl e
                      | Inr s1 \<Rightarrow>
                          Inr (s1\<lparr>binout := map_option (\<lambda>b. BinOut_Data b (mc s1)) (binout s1),
                                  hexout := map_option (\<lambda>h. HexOut_Data h (mc s1)) (hexout s1)\<rparr>))
                   else Inr s) of
               Inl e \<Rightarrow> Inl e
             | Inr s2 \<Rightarrow>
                 (let nCode2 = nCode + nSpace s2;
                      s3 = s2\<lparr>pc := (pc s2)(pseg s2 := pc s2 (pseg s2) + nCode2)\<rparr> in
                  Inr (s3\<lparr>lc := (lc s3)(lseg s3 := lc s3 (lseg s3) + nCode2)\<rparr>)))
          else Inr s)"

text \<open>Lines 2762-2768: a line in error is counted and reported with its line number
  and file.\<close>

definition count_error :: "Assembler \<Rightarrow> py_exn + Assembler" where
  "count_error s =
     (case sErr s of
        None \<Rightarrow> Inr s
      | Some msg \<Rightarrow>
          (case files_top s of
             Inl e \<Rightarrow> Inl e
           | Inr loc \<Rightarrow>
               Inr (s\<lparr>nErr := nErr s + 1,
                      errors_out := errors_out s @ [(msg, snd loc, fst loc)]\<rparr>)))"

text \<open>The body of the read loop for one line that was read (lines 2756-2781).\<close>

definition AsmPass_line :: "Assembler \<Rightarrow> src_line \<Rightarrow> stop + (action \<times> Assembler)" where
  "AsmPass_line s sLine =
     (if files s = [] then Inl (Raise IndexError)
      else
        (let s1 = s\<lparr>files := butlast (files s) @ [(fst (last (files s)), snd (last (files s)) + 1)],
                     trace := trace s @ [sLine]\<rparr> in
         case Parse s1 sLine of
           Inl e \<Rightarrow> Inl e
         | Inr (act, s2) \<Rightarrow>
             (case count_error s2 of
                Inl e \<Rightarrow> Inl (Raise e)
              | Inr s3 \<Rightarrow>
                  (case advance s3 of
                     Inl e \<Rightarrow> Inl (Raise e)
                   | Inr s4 \<Rightarrow> Inr (act, s4)))))"

text \<open>\<^verbatim>\<open>fIn.readline ()\<close> on the handle opened by this pass, which is the newest one
  as long as no file is included.\<close>

definition readline :: "Assembler \<Rightarrow> py_exn + (src_line \<times> Assembler) option" where
  "readline s =
     (if handles s = [] then Inl IndexError
      else
        (let h = last (handles s) in
         if fh_pos h < length (fh_lines h) then
           Inr (Some (fh_lines h ! fh_pos h,
                      s\<lparr>handles := butlast (handles s) @ [h\<lparr>fh_pos := fh_pos h + 1\<rparr>]\<rparr>))
         else Inr None))"

text \<open>The \<^verbatim>\<open>while (True)\<close> loop. An \<^verbatim>\<open>INCLUDE\<close> (action \<^verbatim>\<open>I\<close>) needs the file
  system and is outside the model. A loop that never ends has the value \<open>None\<close>.\<close>

partial_function (option) AsmPass_loop :: "Assembler \<Rightarrow> (stop + Assembler) option" where
  "AsmPass_loop s =
     (case readline s of
        Inl e \<Rightarrow> Some (Inl (Raise e))
      | Inr None \<Rightarrow> Some (Inr s)
      | Inr (Some (sLine, s1)) \<Rightarrow>
          (case AsmPass_line s1 sLine of
             Inl e \<Rightarrow> Some (Inl e)
           | Inr (act, s2) \<Rightarrow>
               if act = ActX then Some (Inr s2)
               else if act = ActI then Some (Inl Outside)
               else AsmPass_loop s2))"

declare AsmPass_loop.simps [code]

definition AsmPass_open :: "Assembler \<Rightarrow> string \<Rightarrow> src_line list \<Rightarrow> Assembler" where
  "AsmPass_open s sInput lns =
     (let s1 = s\<lparr>files := files s @ [(sInput, 0)]\<rparr>;
          s2 = (case labels s1 ''$'' of
                  Some l \<Rightarrow> s1
                | None \<Rightarrow>
                    s1\<lparr>labels := (labels s1)(''$'' \<mapsto>
                         \<lparr>lab_name = ''$'', lab_seg = Some SegA, lab_value = Some 0,
                          lab_file = sInput, lab_line = 0\<rparr>)\<rparr>) in
      s2\<lparr>handles := handles s2 @
            [\<lparr>fh_id = length (handles s2), fh_lines = lns, fh_pos = 0\<rparr>]\<rparr>)"

definition AsmPass_close :: "Assembler \<Rightarrow> nat \<Rightarrow> Assembler" where
  "AsmPass_close s nEnable =
     (let s1 = (if nEnable = length (enable s) then s
                else if style s = MA \<and> nEnable < length (enable s)
                then s\<lparr>enable := take nEnable (enable s)\<rparr>
                else s\<lparr>nErr := nErr s + 1\<rparr>) in
      s1\<lparr>files := butlast (files s1)\<rparr>)"

definition AsmPass :: "Assembler \<Rightarrow> string \<Rightarrow> src_line list \<Rightarrow> (stop + Assembler) option" where
  "AsmPass s sInput lns =
     (case AsmPass_loop (AsmPass_open s sInput lns) of
        None \<Rightarrow> None
      | Some (Inl e) \<Rightarrow> Some (Inl e)
      | Some (Inr s1) \<Rightarrow> Some (Inr (AsmPass_close s1 (length (enable s)))))"

subsection \<open>The assembly job (__init__, Assemble)\<close>

text \<open>The command-line arguments the core consumes. A \<^verbatim>\<open>--define\<close> is given as the
  name and the value already read; a source is its name and its lines. The build
  number, the listing and the symbol file are not modelled.\<close>

record Args =
  arg_style :: style
  arg_cpu_type :: cpu
  arg_permissive :: bool
  arg_update :: "string list option"
  arg_cseg :: "int option"
  arg_dseg :: "int option"
  arg_binary :: "string option"
  arg_hex :: "string option"
  arg_output :: "string option"
  arg_fill :: int
  arg_define :: "(string \<times> int) list"
  arg_source :: "(string \<times> src_line list) list"

text \<open>Lines 2980-2986.\<close>

fun update_opts :: "string list \<Rightarrow> string list \<times> bool \<Rightarrow> string list \<times> bool" where
  "update_opts [] acc = acc"
| "update_opts (sUpd # rest) (l, b) =
     (if sUpd = ''ALL''
      then update_opts rest ([''ORG'', ''BORG'', ''OFFSET'', ''PHASE'', ''DEPHASE'', ''LOAD''], True)
      else update_opts rest (l @ [sUpd], b))"

text \<open>Lines 2998-3009: in the MA dialect a source name ending in \<^verbatim>\<open>,80\<close> to
  \<^verbatim>\<open>,89\<close> selects the simple evaluator.\<close>

fun ma_type :: "string \<Rightarrow> int \<Rightarrow> int" where
  "ma_type [] t = t"
| "ma_type (ch # rest) t =
     (if ord (CHR ''0'') \<le> ord ch \<and> ord ch \<le> ord (CHR ''9'') then ma_type rest (10 * t + ord ch - ord (CHR ''0''))
      else 0)"

text \<open>\<^verbatim>\<open>str.rfind\<close> of one character: the last position, if any.\<close>

definition rfind :: "string \<Rightarrow> char \<Rightarrow> nat option" where
  "rfind str c =
     (case filter (\<lambda>i. str ! i = c) (rev [0..<length str]) of
        [] \<Rightarrow> None
      | i # rest \<Rightarrow> Some i)"

definition ma_eval :: "string \<Rightarrow> nat" where
  "ma_eval src =
     (case rfind src (CHR '','') of
        None \<Rightarrow> 0
      | Some nCh \<Rightarrow>
          if 0 < nCh then
            (let t = ma_type (drop (nCh + 1) src) 0 in
             if 80 \<le> t \<and> t < 90 then 1 else 0)
          else 0)"

text \<open>The state that \<^verbatim>\<open>__init__\<close> and the head of \<^verbatim>\<open>Assemble\<close> (to line 3038) set
  up; \<open>src0\<close> is the name of the first source. \<^verbatim>\<open>phase\<close> is not assigned before
  pass one starts; it has the value 0 here, and the look-up of \<^verbatim>\<open>phase\<close> by a
  \<^verbatim>\<open>--define\<close> is treated in \<open>Assemble_defines\<close>.\<close>

definition Assembler_new :: "Args \<Rightarrow> string \<Rightarrow> Assembler" where
  "Assembler_new args src0 =
     (let upd = (case arg_update args of
                   None \<Rightarrow> ([], False)
                 | Some l \<Rightarrow> update_opts l ([], False));
          b0 = (\<lambda>sg. 0 :: int);
          b1 = (case arg_cseg args of None \<Rightarrow> b0 | Some a \<Rightarrow> b0(SegC := a));
          b2 = (case arg_dseg args of None \<Rightarrow> b1 | Some a \<Rightarrow> b1(SegD := a)) in
      \<lparr>style = arg_style args,
       cpu_type = arg_cpu_type args,
       bStrict = (\<not> arg_permissive args \<and> arg_style args \<noteq> MA),
       bLabCase = (arg_style args = M80),
       eval_mode = (if arg_style args = MA then ma_eval src0 else 0),
       phase = 0,
       nErr = 0,
       sErr = None,
       mc = [],
       nSpace = 0,
       ltype = CHR ''A'',
       eq_val = 0,
       enable = [],
       lseg = SegA,
       pseg = SegA,
       base = b2,
       pc = (\<lambda>sg. 0),
       lc = (\<lambda>sg. 0),
       offset = 0,
       bUpdate = snd upd,
       lOrgUpd = fst upd,
       publics = Map.empty,
       labels = Map.empty,
       locals = [],
       files = [],
       handles = [],
       macros = [],
       begin_addr = 0,
       binout = None,
       hexout = None,
       reformat = \<lparr>ref_open = False, ref_removed = False\<rparr>,
       errors_out = [],
       trace = [],
       sArgs = [],
       chComment = None,
       bPrintX = False,
       build = None\<rparr>)"

text \<open>Lines 3039-3048. \<^verbatim>\<open>Label\<close> reads \<^verbatim>\<open>self.phase\<close> when the name is already
  defined, before that attribute exists.\<close>

fun Assemble_defines :: "Assembler \<Rightarrow> (string \<times> int) list \<Rightarrow> py_exn + Assembler" where
  "Assemble_defines s [] = Inr s"
| "Assemble_defines s ((name, val) # rest) =
     (case fst (Label_lookup s (if \<not> bLabCase s then lower name else name) True
                  ''Command Line'') of
        Some lb \<Rightarrow> Inl AttributeError
      | None \<Rightarrow> Assemble_defines (Asm_Label s name True (Some val)) rest)"

text \<open>The loop over the sources of one pass (lines 3059-3062 and 3092-3110). In pass
  one the local labels of source \<open>i\<close> start empty; in pass two they are those of
  pass one. \<^verbatim>\<open>self.labels\<close> is the very dictionary \<^verbatim>\<open>self.locals[i]\<close>, so
  what the pass did to it is stored back.\<close>

fun Assemble_sources ::
  "Assembler \<Rightarrow> nat \<Rightarrow> (string \<times> src_line list) list \<Rightarrow> (stop + Assembler) option" where
  "Assemble_sources s i [] = Some (Inr s)"
| "Assemble_sources s i ((sSource, lns) # rest) =
     (let s1 = (if phase s = 1 then s\<lparr>labels := Map.empty\<rparr>
                else s\<lparr>labels := locals s ! i\<rparr>) in
      case AsmPass s1 sSource lns of
        None \<Rightarrow> None
      | Some (Inl e) \<Rightarrow> Some (Inl e)
      | Some (Inr s2) \<Rightarrow>
          Assemble_sources
            (s2\<lparr>locals := (if phase s2 = 1 then locals s2 @ [labels s2]
                            else (locals s2)[i := labels s2])\<rparr>) (i + 1) rest)"

text \<open>Closing the sinks (lines 3112-3126).\<close>

definition Reformat_Close :: "Reformat \<Rightarrow> bool \<Rightarrow> Reformat" where
  "Reformat_Close r bKill =
     (let r1 = r\<lparr>ref_open := False\<rparr> in
      if bKill then r1\<lparr>ref_removed := True\<rparr> else r1)"

definition Assemble_finish :: "Assembler \<Rightarrow> Args \<Rightarrow> int \<times> Assembler" where
  "Assemble_finish s args =
     (let bKill = (0 < nErr s);
          s1 = s\<lparr>hexout := map_option (\<lambda>h. HexOut_Close h (begin_addr s) bKill) (hexout s)\<rparr>;
          s2 = s1\<lparr>binout := map_option (\<lambda>b. BinOut_Close b bKill) (binout s1)\<rparr>;
          s3 = (if arg_output args = None then s2
                else s2\<lparr>reformat := Reformat_Close (reformat s2) bKill\<rparr>) in
      (if 0 < nErr s3 then 1 else 0, s3))"

text \<open>Pass one (lines 3039-3062): the defines, then every source with \<^verbatim>\<open>phase\<close> 1.\<close>

definition Assemble_pass1 :: "Args \<Rightarrow> (stop + Assembler) option" where
  "Assemble_pass1 args =
     (case arg_source args of
        [] \<Rightarrow> Some (Inl (Raise IndexError))
      | src # others \<Rightarrow>
          (case Assemble_defines (Assembler_new args (fst src)) (arg_define args) of
             Inl e \<Rightarrow> Some (Inl (Raise e))
           | Inr s0 \<Rightarrow>
               Assemble_sources (s0\<lparr>phase := 1, nErr := 0, enable := enable s0 @ [True]\<rparr>) 0
                 (arg_source args)))"

text \<open>Pass two (lines 3069-3110): the counters start again at 0 and the sinks are
  opened.\<close>

definition Assemble_pass2 :: "Assembler \<Rightarrow> Args \<Rightarrow> (stop + Assembler) option" where
  "Assemble_pass2 s2 args =
     (let s3 = s2\<lparr>phase := 2, pc := (\<lambda>sg. 0), lc := (\<lambda>sg. 0), offset := 0,
                  binout := map_option (\<lambda>f. BinOut_init f (arg_fill args)) (arg_binary args),
                  hexout := map_option HexOut_init (arg_hex args),
                  reformat := (reformat s2)\<lparr>ref_open := (arg_output args \<noteq> None)\<rparr>\<rparr>;
          s4 = (if arg_dseg args = None
                then s3\<lparr>base := (base s3)(SegD := lc s3 SegC)\<rparr> else s3) in
      Assemble_sources s4 0 (arg_source args))"

text \<open>\<^verbatim>\<open>Assemble\<close>: the exit status of the process (1 after \<^verbatim>\<open>sys.exit (1)\<close>,
  0 otherwise) and the final state. Errors in pass one end the job before any sink is
  opened.\<close>

definition Assemble :: "Args \<Rightarrow> (stop + int \<times> Assembler) option" where
  "Assemble args =
     (case Assemble_pass1 args of
        None \<Rightarrow> None
      | Some (Inl e) \<Rightarrow> Some (Inl e)
      | Some (Inr s2) \<Rightarrow>
          if 0 < nErr s2 then Some (Inr (1, s2))
          else
            (case Assemble_pass2 s2 args of
               None \<Rightarrow> None
             | Some (Inl e) \<Rightarrow> Some (Inl e)
             | Some (Inr s5) \<Rightarrow> Some (Inr (Assemble_finish s5 args))))"

subsection \<open>Observations and example jobs\<close>

text \<open>What is observed of a result: of an evaluation the value and the error of the
  line; of a parsed line the action, the bytes and the error; of a job the exit status,
  the error count, and for each sink its content and whether the file was removed.\<close>

definition obs_eval :: "py_exn + int \<times> Assembler \<Rightarrow> py_exn + int \<times> string option" where
  "obs_eval r = map_sum id (\<lambda>(v, s). (v, sErr s)) r"

definition obs_parse ::
  "stop + action \<times> Assembler \<Rightarrow> stop + action \<times> int list \<times> string option" where
  "obs_parse r = map_sum id (\<lambda>(a, s). (a, mc s, sErr s)) r"

record job_result =
  jr_exit :: int
  jr_nErr :: int
  jr_bin :: "(int list \<times> bool) option"
  jr_hex :: "(string \<times> bool) option"
  jr_ref_removed :: bool

definition obs_job :: "(stop + int \<times> Assembler) option \<Rightarrow> (stop + job_result) option" where
  "obs_job r =
     map_option (map_sum id (\<lambda>(c, s).
       \<lparr>jr_exit = c, jr_nErr = nErr s,
        jr_bin = map_option (\<lambda>b. (bin_f b, bin_removed b)) (binout s),
        jr_hex = map_option (\<lambda>h. (hex_f h, hex_removed h)) (hexout s),
        jr_ref_removed = ref_removed (reformat s)\<rparr>)) r"

text \<open>The value of a local label of source \<open>i\<close>.\<close>

definition local_value :: "Assembler \<Rightarrow> nat \<Rightarrow> string \<Rightarrow> int option" where
  "local_value s i nm =
     (case (locals s ! i) nm of None \<Rightarrow> None | Some lb \<Rightarrow> lab_value lb)"

definition obs_local ::
  "(stop + Assembler) option \<Rightarrow> nat \<Rightarrow> string \<Rightarrow> (stop + int option) option" where
  "obs_local r i nm = map_option (map_sum id (\<lambda>s. local_value s i nm)) r"

definition obs_job_local ::
  "(stop + int \<times> Assembler) option \<Rightarrow> nat \<Rightarrow> string \<Rightarrow> (stop + int option) option" where
  "obs_job_local r i nm = map_option (map_sum id (\<lambda>(c, s). local_value s i nm)) r"

text \<open>An M80 job for the Z80 with binary, hex and reformatted output, and a state of
  pass two in an enabled block.\<close>

definition ex_args :: Args where
  "ex_args =
     \<lparr>arg_style = M80, arg_cpu_type = CPU_Z80, arg_permissive = False, arg_update = None,
      arg_cseg = None, arg_dseg = None, arg_binary = Some ''a.bin'', arg_hex = Some ''a.hex'',
      arg_output = Some ''a.m80'', arg_fill = 0xFF, arg_define = [], arg_source = []\<rparr>"

definition ex_state :: Assembler where
  "ex_state = (Assembler_new ex_args ''a.mac'')\<lparr>phase := 2, enable := [True]\<rparr>"

text \<open>\<^verbatim>\<open>ORG 0\<close> / \<^verbatim>\<open>DB 0FFH\<close>: one data byte at address 0.\<close>

definition job_hex :: Args where
  "job_hex = ex_args\<lparr>arg_source :=
     [(''a.mac'', [Stmt None ''ORG'' [(''0'', [TD 0, TOp Comma])],
                   Stmt None ''DB'' [(''0FFH'', [TH 0xFF, TOp Comma])]])]\<rparr>"

text \<open>\<^verbatim>\<open>ORG 0\<close> / \<^verbatim>\<open>RETN\<close>.\<close>

definition job_retn :: Args where
  "job_retn = ex_args\<lparr>arg_source :=
     [(''a.mac'', [Stmt None ''ORG'' [(''0'', [TD 0, TOp Comma])],
                   Stmt None ''RETN'' []])]\<rparr>"

text \<open>Truncating division, as the specification words it.\<close>

definition spec_trunc_div :: "int \<Rightarrow> int \<Rightarrow> int" where
  "spec_trunc_div a b = sgn a * sgn b * (\<bar>a\<bar> div \<bar>b\<bar>)"

text \<open>A state of the MA dialect, in pass one.\<close>

definition ex_state_MA :: Assembler where
  "ex_state_MA =
     (Assembler_new (ex_args\<lparr>arg_style := MA\<rparr>) ''a.asm'')\<lparr>phase := 1, enable := [True]\<rparr>"

text \<open>Two sources. \<^verbatim>\<open>a.mac\<close> is the line \<^verbatim>\<open>FOO::\<close>, a public label.
  \<^verbatim>\<open>b.mac\<close> is \<^verbatim>\<open>FOO EQU BAR\<close> / \<^verbatim>\<open>BAR EQU 5\<close> / \<^verbatim>\<open>ORG 0\<close> / \<^verbatim>\<open>DB FOO\<close>:
  its local \<^verbatim>\<open>FOO\<close> refers forward to \<^verbatim>\<open>BAR\<close>. \<open>job_phase\<close> is \<^verbatim>\<open>b.mac\<close>
  alone.\<close>

definition b_mac :: "src_line list" where
  "b_mac =
     [Stmt (Some (''FOO'', False)) ''EQU'' [(''BAR'', [TL ''BAR'', TOp Comma])],
      Stmt (Some (''BAR'', False)) ''EQU'' [(''5'', [TD 5, TOp Comma])],
      Stmt None ''ORG'' [(''0'', [TD 0, TOp Comma])],
      Stmt None ''DB'' [(''FOO'', [TL ''FOO'', TOp Comma])]]"

definition job_shadow :: Args where
  "job_shadow = ex_args\<lparr>arg_source :=
     [(''a.mac'', [Stmt (Some (''FOO'', True)) [] []]), (''b.mac'', b_mac)]\<rparr>"

definition job_phase :: Args where
  "job_phase = ex_args\<lparr>arg_source := [(''b.mac'', b_mac)]\<rparr>"

text \<open>A state in which the (empty) source \<^verbatim>\<open>a.mac\<close> has just been opened in pass
  two, and the state after the line \<^verbatim>\<open>LDIR\<close> is assembled there.\<close>

definition ex_run :: Assembler where
  "ex_run = AsmPass_open ex_state ''a.mac'' []"




text \<open>The (empty) source \<^verbatim>\<open>a.asm\<close> just opened in the MA dialect, in pass one.\<close>

definition ex_run_MA :: Assembler where
  "ex_run_MA = AsmPass_open ex_state_MA ''a.asm'' []"




text \<open>The fields that steer the read loop: the macro stack, the open files and their
  read positions, the conditional stack, the file names with their line numbers, and
  the log of lines parsed. \<open>bumpn k\<close> adds \<open>k\<close> to the line number of the current file.\<close>

definition ctl ::
  "Assembler \<Rightarrow> (nat \<times> nat \<times> int) list \<times> FileHandle list \<times> bool list \<times> (string \<times> int) list \<times>
     src_line list" where
  "ctl s = (macros s, handles s, enable s, files s, trace s)"

definition bumpn :: "int \<Rightarrow> (string \<times> int) list \<Rightarrow> (string \<times> int) list" where
  "bumpn k fs = butlast fs @ [(fst (last fs), snd (last fs) + k)]"

text \<open>A pass that ends: it returns, and unless it stopped with an exception (or left
  the model) the final state satisfies \<open>Q\<close>. What is observed of a pass is the log of
  lines parsed, the macro stack and the errors reported.\<close>

definition ends_with :: "(Assembler \<Rightarrow> bool) \<Rightarrow> (stop + Assembler) option \<Rightarrow> bool" where
  "ends_with Q r = (case r of None \<Rightarrow> False | Some (Inl e) \<Rightarrow> True | Some (Inr s') \<Rightarrow> Q s')"




section \<open>Properties\<close>

lemma and_FF: "(x::int) AND 0xFF = x mod 256"
proof -
  have "take_bit 8 x = x AND mask 8" by (rule take_bit_eq_mask)
  thus ?thesis by (simp add: take_bit_eq_mod mask_eq_exp_minus_1)
qed

text \<open>
  C2. The checksum of a type-00 record is meant to be the two-digit byte
  \<open>(0x100 - (sum AND 0xFF)) AND 0xFF\<close>. \<^verbatim>\<open>HexOut.Write\<close> leaves out the final mask: for
  the job \<^verbatim>\<open>ORG 0\<close> / \<^verbatim>\<open>DB 0FFH\<close> the record bytes sum to 0x100, the checksum
  computed is 0x100, and the record written ends in the three digits \<^verbatim>\<open>100\<close>.
\<close>

theorem HexOut_checksum_three_digits:
  "obs_job (Assemble job_hex) =
     Some (Inr \<lparr>jr_exit = 0, jr_nErr = 0, jr_bin = Some ([0xFF], False),
                jr_hex = Some ('':01000000FF100'' @ [CHR 0x0A] @ '':00000001FF'' @ [CHR 0x0A],
                               False),
                jr_ref_removed = False\<rparr>)
   \<and> Write_cs 0 [0xFF] = 0x100"
  by code_simp

text \<open>
  C8. \<^verbatim>\<open>RETN\<close> is meant to assemble to the two bytes 0xED 0x45. The table entry is
  the three-byte literal \<^verbatim>\<open>b'\xED45'\<close>, and the job \<^verbatim>\<open>ORG 0\<close> / \<^verbatim>\<open>RETN\<close> writes
  the bytes 0xED 0x34 0x35.
\<close>

theorem RETN_three_bytes:
  "op0 ''RETN'' = Some [0xED, 0x34, 0x35]
   \<and> obs_job (Assemble job_retn) =
       Some (Inr \<lparr>jr_exit = 0, jr_nErr = 0, jr_bin = Some ([0xED, 0x34, 0x35], False),
                  jr_hex = Some ('':03000000ED3435A7'' @ [CHR 0x0A] @ '':00000001FF'' @ [CHR 0x0A],
                                 False),
                  jr_ref_removed = False\<rparr>)"
  by code_simp

text \<open>
  C9. A string term used as a number: the empty string is 0, a single character is its
  code, and a longer string is 256 times the code of its last but one character plus
  the code of its last character, whatever precedes them.
\<close>

theorem ExprEval_string_value:
  "ExprEval s [TStr [], TOp Comma] = Inr (0, s) \<and>
   ExprEval s [TStr [c], TOp Comma] = Inr (ord c, s) \<and>
   ExprEval s [TStr (pre @ [a, b]), TOp Comma] = Inr (256 * ord a + ord b, s)"
  by (simp add: ExprEval_def ExprEval_finish_def str_value_def nth_append)

text \<open>
  C5 (as amended). \<^verbatim>\<open>/\<close> and \<^verbatim>\<open>MOD\<close> are Python's \<^verbatim>\<open>//\<close> and \<^verbatim>\<open>%\<close>: for a
  non-zero divisor they give the quotient rounded towards minus infinity and the
  matching remainder. A shift by a negative count records the error
  \<^verbatim>\<open>Negative shift value\<close> and leaves the left operand as the value.
\<close>

theorem ExprEval_div_mod_floor:
  "(b \<noteq> 0 \<longrightarrow>
     ExprEval s [TD a, TOp Slash, TD b, TOp Comma] = Inr (a div b, s) \<and>
     ExprEval s [TD a, TOp MOD, TD b, TOp Comma] = Inr (a mod b, s)) \<and>
   (c < 0 \<longrightarrow>
     ExprEval s [TD a, TOp SHL, TD c, TOp Comma] =
       Inr (a, AsmErr s (''Negative shift value: '' @ fmt_d c)) \<and>
     ExprEval s [TD a, TOp SHR, TD c, TOp Comma] =
       Inr (a, AsmErr s (''Negative shift value: '' @ fmt_d c)))"
  by (simp add: ExprEval_def ExprEval_finish_def evLvl_def)

theorem ExprEval_div_mod_floor_witness:
  "(2::int) \<noteq> 0 \<and> (- 1::int) < 0 \<and>
   obs_eval (ExprEval ex_state [TD (- 7), TOp Slash, TD 2, TOp Comma]) = Inr (- 4, None) \<and>
   obs_eval (ExprEval ex_state [TD (- 7), TOp MOD, TD 2, TOp Comma]) = Inr (1, None) \<and>
   obs_eval (ExprEval ex_state [TD (- 7), TOp SHL, TD (- 1), TOp Comma]) =
     Inr (- 7, Some ''Negative shift value: -1'') \<and>
   obs_eval (ExprEval ex_state [TD (- 7), TOp SHR, TD (- 1), TOp Comma]) =
     Inr (- 7, Some ''Negative shift value: -1'')"
proof -
  have e: "sErr ex_state = None"
    by code_simp
  have f: "fmt_d (- 1) = ''-1''"
    by (simp add: fmt_d_def dec_digits.simps decdigit_def)
  show ?thesis
    using ExprEval_div_mod_floor [of 2 ex_state "- 7" "- 1"]
    by (simp add: obs_eval_def AsmErr_def e f)
qed

text \<open>C5 as stated fails: the expression \<^verbatim>\<open>-7 / 2\<close> evaluates to -4, where
  truncation towards zero gives -3.\<close>

theorem division_truncation_counterexample:
  "obs_eval (ExprEval ex_state [TOp UMinus, TD 7, TOp Slash, TD 2, TOp Comma]) = Inr (- 4, None)
   \<and> spec_trunc_div (- 7) 2 = - 3"
  by code_simp

text \<open>
  C6. The 8-bit constant wrapper is meant to accept -0x80..0xFF. \<^verbatim>\<open>EvalArith8\<close>
  tests \<^verbatim>\<open>value > -0x80\<close>: in pass two, in an enabled block, the expression \<^verbatim>\<open>-128\<close>
  is refused with the caller's error and the result 0, while -127 is accepted and the
  signed wrapper \<^verbatim>\<open>EvalArithS8\<close> accepts -128.
\<close>

theorem EvalArith8_rejects_minus_128:
  "obs_eval (EvalArith8 ex_state [TOp UMinus, TD 0x80, TOp Comma] ''Invalid 8-bit constant'') =
     Inr (0, Some ''Invalid 8-bit constant'') \<and>
   obs_eval (EvalArith8 ex_state [TOp UMinus, TD 0x7F, TOp Comma] ''Invalid 8-bit constant'') =
     Inr (0x81, None) \<and>
   obs_eval (EvalArithS8 ex_state [TOp UMinus, TD 0x80, TOp Comma] ''Index out of range'') =
     Inr (0x80, None)"
  by code_simp




text \<open>
  C1. A label whose value differs between the passes is meant to give a phase error, the
  removal of every output file and exit status 1. That is what happens to the local
  \<^verbatim>\<open>FOO\<close> of \<^verbatim>\<open>b.mac\<close> assembled alone (\<open>job_phase\<close>). Assembled after
  \<^verbatim>\<open>a.mac\<close>, whose public \<^verbatim>\<open>FOO\<close> it shadows, the same label has the value 0 after
  pass one and 5 after pass two, no error is counted, the exit status is 0 and the
  binary holding the byte 5 is kept: \<^verbatim>\<open>Label\<close> drops the public record of another
  file without looking the name up among the locals, and defines the label anew.
\<close>

theorem phase_check_skipped_for_shadowing_local:
  "obs_local (Assemble_pass1 job_shadow) 1 ''FOO'' = Some (Inr (Some 0)) \<and>
   obs_job_local (Assemble job_shadow) 1 ''FOO'' = Some (Inr (Some 5)) \<and>
   obs_job (Assemble job_shadow) =
     Some (Inr \<lparr>jr_exit = 0, jr_nErr = 0, jr_bin = Some ([5], False),
                jr_hex = Some ('':0100000005FA'' @ [CHR 0x0A] @ '':00000001FF'' @ [CHR 0x0A],
                               False),
                jr_ref_removed = False\<rparr>) \<and>
   obs_job (Assemble job_phase) =
     Some (Inr \<lparr>jr_exit = 1, jr_nErr = 1, jr_bin = Some ([0], True),
                jr_hex = Some ('':0100000000FF'' @ [CHR 0x0A] @ '':00000001FF'' @ [CHR 0x0A],
                               True),
                jr_ref_removed = True\<rparr>)"
  by code_simp

subsection \<open>What a line leaves unchanged\<close>















lemma AsmErr_fields [simp]:
  "pc (AsmErr s msg) = pc s" "lc (AsmErr s msg) = lc s" "pseg (AsmErr s msg) = pseg s"
  "lseg (AsmErr s msg) = lseg s" "mc (AsmErr s msg) = mc s" "nSpace (AsmErr s msg) = nSpace s"
  "enable (AsmErr s msg) = enable s" "phase (AsmErr s msg) = phase s"
  "base (AsmErr s msg) = base s"
  by (simp_all add: AsmErr_def)

lemma Asm_Label_shape:
  "(\<exists>b k lb. Asm_Label s n p v = store_label s b k lb) \<or>
   (\<exists>m. Asm_Label s n p v = AsmErr s m) \<or> Asm_Label s n p v = s"
proof -
  define Q where
    "Q x \<longleftrightarrow> (\<exists>b k lb. x = store_label s b k lb) \<or> (\<exists>m. x = AsmErr s m) \<or> x = s" for x
  have a: "Q (Label_create s bp k nm sg val tl)" for bp k nm sg val tl
    unfolding Label_create_def Q_def by blast
  have b: "Q (Label_pass1 s bp k lb sg val tl)" for bp k lb sg val tl
    unfolding Label_pass1_def Q_def by (cases "lab_value lb") auto
  have c: "Q (Label_pass2 s lb val)" for lb val
    unfolding Label_pass2_def Q_def by (cases "lab_value lb") auto
  have "Q (Asm_Label s n p v)"
    unfolding Asm_Label_def Let_def by (simp add: a b c split: option.split)
  then show ?thesis unfolding Q_def .
qed

lemma Asm_Label_frame:
  "\<exists>e pu la. Asm_Label s n p v = s\<lparr>sErr := e, publics := pu, labels := la\<rparr>"
proof -
  have a: "\<exists>e pu la. store_label s b k lb = s\<lparr>sErr := e, publics := pu, labels := la\<rparr>"
    for b k lb
  proof -
    have "store_label s b k lb =
            s\<lparr>sErr := sErr s, publics := publics (store_label s b k lb),
              labels := labels (store_label s b k lb)\<rparr>"
      by (simp add: store_label_def)
    then show ?thesis by blast
  qed
  have b: "\<exists>e pu la. AsmErr s m = s\<lparr>sErr := e, publics := pu, labels := la\<rparr>" for m
  proof -
    have "AsmErr s m = s\<lparr>sErr := sErr (AsmErr s m), publics := publics s, labels := labels s\<rparr>"
      by (simp add: AsmErr_def)
    then show ?thesis by blast
  qed
  have c: "\<exists>e pu la. s = s\<lparr>sErr := e, publics := pu, labels := la\<rparr>"
  proof -
    have "s = s\<lparr>sErr := sErr s, publics := publics s, labels := labels s\<rparr>" by simp
    then show ?thesis by blast
  qed
  from Asm_Label_shape [of s n p v] a b c show ?thesis by metis
qed

lemma Asm_Label_fields [simp]:
  "pc (Asm_Label s n p v) = pc s" "lc (Asm_Label s n p v) = lc s"
  "pseg (Asm_Label s n p v) = pseg s" "lseg (Asm_Label s n p v) = lseg s"
  "mc (Asm_Label s n p v) = mc s" "nSpace (Asm_Label s n p v) = nSpace s"
  "enable (Asm_Label s n p v) = enable s"
  using Asm_Label_frame [of s n p v] by auto

lemma enable_top_fields: "enable s' = enable s \<Longrightarrow> enable_top s' = enable_top s"
  by (simp add: enable_top_def)












lemma Code_bytes_fields [simp]:
  "pc (Code_bytes s bs) = pc s" "lc (Code_bytes s bs) = lc s"
  "pseg (Code_bytes s bs) = pseg s" "lseg (Code_bytes s bs) = lseg s"
  by (simp_all add: Code_bytes_def)




















subsection \<open>Relative jumps\<close>


lemma byte_range: "0 \<le> (x::int) AND 0xFF \<and> x AND 0xFF \<le> 255"
  by (simp add: and_FF)

















text \<open>In the MA dialect a blank separates the fields of a jump: \<^verbatim>\<open>JR 16 +2\<close> has two
  fields, the first is taken as the condition code, and no byte is emitted.\<close>

lemma MA_jump_fields:
  "obs_parse (Parse ex_run_MA (Stmt None ''JR'' [(''16 +2'', [TD 16, TOp Plus, TD 2, TOp Comma])])) =
     Inr (NoAction, [], Some ''Invalid condition code: 16'') \<and>
   obs_parse (Parse ex_run (Stmt None ''JR'' [(''16 +2'', [TD 16, TOp Plus, TD 2, TOp Comma])])) =
     Inr (NoAction, [0x18, 0x10], None)"
  by code_simp

subsection \<open>Repeated blocks\<close>

lemma ctl_upd [simp]:
  "ctl (s\<lparr>sErr := e\<rparr>) = ctl s" "ctl (s\<lparr>ltype := c\<rparr>) = ctl s"
  "ctl (s\<lparr>eq_val := v\<rparr>) = ctl s" "ctl (s\<lparr>pc := f\<rparr>) = ctl s" "ctl (s\<lparr>lc := f\<rparr>) = ctl s"
  "ctl (s\<lparr>binout := bo\<rparr>) = ctl s" "ctl (s\<lparr>hexout := ho\<rparr>) = ctl s"
  "ctl (s\<lparr>bUpdate := b\<rparr>) = ctl s" "ctl (s\<lparr>nSpace := v\<rparr>) = ctl s"
  "ctl (s\<lparr>mc := bs\<rparr>) = ctl s" "ctl (s\<lparr>labels := la\<rparr>) = ctl s"
  "ctl (s\<lparr>publics := pu\<rparr>) = ctl s" "ctl (s\<lparr>nErr := v\<rparr>) = ctl s"
  "ctl (s\<lparr>errors_out := eo\<rparr>) = ctl s"
  by (simp_all add: ctl_def)

lemma ctl_AsmErr [simp]: "ctl (AsmErr s msg) = ctl s"
  by (simp add: AsmErr_def)





lemma ctl_Asm_Label [simp]: "ctl (Asm_Label s n p v) = ctl s"
  using Asm_Label_frame [of s n p v] by (auto simp: ctl_def)

lemma ctl_Code_bytes [simp]: "ctl (Code_bytes s bs) = ctl s"
  by (simp add: Code_bytes_def ctl_def)

















lemma ctl_Parse_reset [simp]: "ctl (Parse_reset s) = ctl s"
  by (simp add: Parse_reset_def ctl_def)


lemma bumpn_bumpn [simp]: "bumpn a (bumpn b fs) = bumpn (b + a) fs"
  by (simp add: bumpn_def)

lemma bumpn_last [simp]: "last (bumpn k fs) = (fst (last fs), snd (last fs) + k)"
  by (simp add: bumpn_def)









lemma ends_with_Inl [simp]: "ends_with Q (Some (Inl e))"
  by (simp add: ends_with_def)

lemma ends_with_Inr [simp]: "ends_with Q (Some (Inr s)) = Q s"
  by (simp add: ends_with_def)

text \<open>The loop over a stretch of body lines.\<close>

lemma bumpn_nonempty [simp]: "bumpn k fs \<noteq> []"
  by (simp add: bumpn_def)

















end
